theory Spec2Isabelle
  imports Complex_Main
begin

section \<open>JavaScript numbers\<close>

text \<open>
  The TypeScript sources compute with \<^verbatim>\<open>number\<close>. The model keeps the special values of
  that type (\<^verbatim>\<open>Infinity\<close>, \<^verbatim>\<open>-Infinity\<close>, \<^verbatim>\<open>NaN\<close>), because the code divides by
  user-supplied amounts, and takes every finite value as a real number. The operators
  \<open>+\<close>, \<open>-\<close>, \<open>*\<close> and \<open>/\<close> on this type are exact; they serve the recommendation service
  and the risk questionnaire, whose amounts, percentages and scores are small integers and
  ratios compared against thresholds. The projection, which compounds a value and rounds
  the result, is modelled on the rounded operations of binary64 instead (section
  Projection). The sign of zero is outside the model: there is one zero, and it behaves as
  \<^verbatim>\<open>+0\<close>.
\<close>

datatype number = Fin real | PosInfinity | NegInfinity | NaN

fun num_neg :: "number \<Rightarrow> number" where
  "num_neg (Fin a) = Fin (- a)"
| "num_neg PosInfinity = NegInfinity"
| "num_neg NegInfinity = PosInfinity"
| "num_neg NaN = NaN"

fun num_add :: "number \<Rightarrow> number \<Rightarrow> number" where
  "num_add NaN _ = NaN"
| "num_add _ NaN = NaN"
| "num_add (Fin a) (Fin b) = Fin (a + b)"
| "num_add PosInfinity NegInfinity = NaN"
| "num_add NegInfinity PosInfinity = NaN"
| "num_add PosInfinity _ = PosInfinity"
| "num_add NegInfinity _ = NegInfinity"
| "num_add _ PosInfinity = PosInfinity"
| "num_add _ NegInfinity = NegInfinity"

text \<open>The infinity with the sign of a non-zero real, \<^verbatim>\<open>NaN\<close> for zero.\<close>

definition signed_infinity :: "real \<Rightarrow> number" where
  "signed_infinity a = (if a = 0 then NaN else if 0 < a then PosInfinity else NegInfinity)"

fun num_mul :: "number \<Rightarrow> number \<Rightarrow> number" where
  "num_mul NaN _ = NaN"
| "num_mul _ NaN = NaN"
| "num_mul (Fin a) (Fin b) = Fin (a * b)"
| "num_mul (Fin a) PosInfinity = signed_infinity a"
| "num_mul (Fin a) NegInfinity = signed_infinity (- a)"
| "num_mul PosInfinity (Fin b) = signed_infinity b"
| "num_mul NegInfinity (Fin b) = signed_infinity (- b)"
| "num_mul PosInfinity PosInfinity = PosInfinity"
| "num_mul NegInfinity NegInfinity = PosInfinity"
| "num_mul PosInfinity NegInfinity = NegInfinity"
| "num_mul NegInfinity PosInfinity = NegInfinity"

fun num_div :: "number \<Rightarrow> number \<Rightarrow> number" where
  "num_div NaN _ = NaN"
| "num_div _ NaN = NaN"
| "num_div (Fin a) (Fin b) = (if b = 0 then signed_infinity a else Fin (a / b))"
| "num_div (Fin a) PosInfinity = Fin 0"
| "num_div (Fin a) NegInfinity = Fin 0"
| "num_div PosInfinity (Fin b) = (if 0 \<le> b then PosInfinity else NegInfinity)"
| "num_div NegInfinity (Fin b) = (if 0 \<le> b then NegInfinity else PosInfinity)"
| "num_div _ _ = NaN"

text \<open>\<^verbatim>\<open>a < b\<close> and \<^verbatim>\<open>a === b\<close> on numbers: every comparison with \<^verbatim>\<open>NaN\<close> is false.\<close>

fun num_less :: "number \<Rightarrow> number \<Rightarrow> bool" where
  "num_less NaN _ = False"
| "num_less _ NaN = False"
| "num_less (Fin a) (Fin b) = (a < b)"
| "num_less (Fin a) PosInfinity = True"
| "num_less (Fin a) NegInfinity = False"
| "num_less PosInfinity _ = False"
| "num_less NegInfinity NegInfinity = False"
| "num_less NegInfinity _ = True"

definition strict_eq :: "number \<Rightarrow> number \<Rightarrow> bool" where
  "strict_eq a b = (a \<noteq> NaN \<and> a = b)"

instantiation number :: "{plus, minus, uminus, times, inverse, ord}"
begin

definition plus_number :: "number \<Rightarrow> number \<Rightarrow> number" where
  "plus_number a b = num_add a b"

definition uminus_number :: "number \<Rightarrow> number" where
  "uminus_number a = num_neg a"

definition minus_number :: "number \<Rightarrow> number \<Rightarrow> number" where
  "minus_number a b = num_add a (num_neg b)"

definition times_number :: "number \<Rightarrow> number \<Rightarrow> number" where
  "times_number a b = num_mul a b"

definition divide_number :: "number \<Rightarrow> number \<Rightarrow> number" where
  "divide_number a b = num_div a b"

definition inverse_number :: "number \<Rightarrow> number" where
  "inverse_number a = num_div (Fin 1) a"

definition less_number :: "number \<Rightarrow> number \<Rightarrow> bool" where
  "less_number a b = num_less a b"

definition less_eq_number :: "number \<Rightarrow> number \<Rightarrow> bool" where
  "less_eq_number a b = (num_less a b \<or> strict_eq a b)"

instance ..

end

text \<open>\<^verbatim>\<open>Math.max\<close>, \<^verbatim>\<open>Math.min\<close> (\<^verbatim>\<open>NaN\<close> if an argument is) and \<^verbatim>\<open>Math.round\<close>
  (to the nearest integer, a tie going up).\<close>

definition Math_max :: "number \<Rightarrow> number \<Rightarrow> number" where
  "Math_max a b = (if a = NaN \<or> b = NaN then NaN else if a < b then b else a)"

definition Math_min :: "number \<Rightarrow> number \<Rightarrow> number" where
  "Math_min a b = (if a = NaN \<or> b = NaN then NaN else if b < a then b else a)"

fun Math_round :: "number \<Rightarrow> number" where
  "Math_round (Fin a) = Fin (of_int \<lfloor>a + 1 / 2\<rfloor>)"
| "Math_round x = x"

text \<open>\<^verbatim>\<open>x || d\<close> on numbers: \<^verbatim>\<open>0\<close> and \<^verbatim>\<open>NaN\<close> are falsy.\<close>

definition truthy :: "number \<Rightarrow> bool" where
  "truthy x = (x \<noteq> Fin 0 \<and> x \<noteq> NaN)"

definition or_else :: "number \<Rightarrow> number \<Rightarrow> number" where
  "or_else x d = (if truthy x then x else d)"

text \<open>A number that is an integer between two bounds; no special value is.\<close>

definition integer_between :: "int \<Rightarrow> int \<Rightarrow> number \<Rightarrow> bool" where
  "integer_between lo hi x =
     (case x of
        Fin r \<Rightarrow> r = of_int \<lfloor>r\<rfloor> \<and> of_int lo \<le> r \<and> r \<le> of_int hi
      | _ \<Rightarrow> False)"

section \<open>Types of the recommendation service\<close>

text \<open>
  Modelled from the spec: the enums \<^verbatim>\<open>RiskLevel\<close> and \<^verbatim>\<open>RiskTolerance\<close>. The service and
  the questionnaire screen use the members \<^verbatim>\<open>LOW\<close>, \<^verbatim>\<open>MEDIUM\<close>, \<^verbatim>\<open>HIGH\<close> and
  \<^verbatim>\<open>CONSERVATIVE\<close>, \<^verbatim>\<open>MODERATE\<close>, \<^verbatim>\<open>AGGRESSIVE\<close>; the declarations they import from
  \<^verbatim>\<open>@/types\<close> are not among the sources in this form (\<^verbatim>\<open>src/types/index.ts\<close> has no
  \<^verbatim>\<open>RiskLevel\<close> and spells the members of \<^verbatim>\<open>RiskTolerance\<close> differently). The
  specification gives both as enums of three values, so the \<^verbatim>\<open>default\<close> branch of
  \<^verbatim>\<open>filterByRiskTolerance\<close> has no input.
\<close>

datatype RiskLevel = LOW | MEDIUM | HIGH

datatype RiskTolerance = CONSERVATIVE | MODERATE | AGGRESSIVE

text \<open>The object \<^verbatim>\<open>calculateAssetAllocation\<close> returns, with its four keys.\<close>

record Allocation =
  stocks :: number
  bonds :: number
  government :: number
  bank :: number

definition calculateAssetAllocation :: "number \<Rightarrow> RiskTolerance \<Rightarrow> Allocation" where
  "calculateAssetAllocation age riskTolerance =
     (let stockAllocation = Fin 100 - age;
          stockAllocation =
            (case riskTolerance of
               CONSERVATIVE \<Rightarrow> Math_max (stockAllocation - Fin 20) (Fin 10)
             | AGGRESSIVE \<Rightarrow> Math_min (stockAllocation + Fin 20) (Fin 80)
             | MODERATE \<Rightarrow> stockAllocation);
          bondAllocation = Fin 100 - stockAllocation
      in \<lparr>stocks = stockAllocation,
          bonds = bondAllocation,
          government = Math_min (bondAllocation * Fin 0.6) (Fin 40),
          bank = Math_min (bondAllocation * Fin 0.4) (Fin 30)\<rparr>)"

text \<open>
  The catalogue of instruments. The fields that hold display text only (\<^verbatim>\<open>name\<close>,
  \<^verbatim>\<open>description\<close>, \<^verbatim>\<open>features\<close>, \<^verbatim>\<open>pros\<close>, \<^verbatim>\<open>cons\<close>, \<^verbatim>\<open>eligibility\<close>,
  \<^verbatim>\<open>provider\<close>) take no part in any computation and are left out. \<^verbatim>\<open>InvestmentType\<close>
  has the members the catalogue uses (those of \<^verbatim>\<open>backend/src/models/Investment.ts\<close>);
  \<^verbatim>\<open>Category\<close> is the union of string literals of the field \<^verbatim>\<open>category\<close>.
\<close>

datatype InvestmentType = SANCHAYAPATRA | DPS | FIXED_DEPOSIT | MUTUAL_FUND | STOCK | BOND

datatype Category =
  Cat_government | Cat_bank | Cat_stock | Cat_mutual_fund | Cat_bond | Cat_sanchayapatra

record BangladeshInvestmentOption =
  type :: InvestmentType
  nameEn :: string
  expectedReturn :: number
  minInvestment :: number
  maxInvestment :: "number option"
  riskLevel :: RiskLevel
  liquidityDays :: number
  taxBenefit :: bool
  category :: Category

definition bangladeshInvestments :: "BangladeshInvestmentOption list" where
  "bangladeshInvestments =
    [\<lparr>type = SANCHAYAPATRA, nameEn = ''Sanchayapatra'', expectedReturn = Fin 8.5,
      minInvestment = Fin 1000, maxInvestment = Some (Fin 3000000), riskLevel = LOW,
      liquidityDays = Fin 365, taxBenefit = True, category = Cat_government\<rparr>,
     \<lparr>type = DPS, nameEn = ''Deposit Pension Scheme'', expectedReturn = Fin 7.2,
      minInvestment = Fin 500, maxInvestment = None, riskLevel = LOW,
      liquidityDays = Fin 30, taxBenefit = False, category = Cat_bank\<rparr>,
     \<lparr>type = FIXED_DEPOSIT, nameEn = ''Fixed Deposit'', expectedReturn = Fin 6.5,
      minInvestment = Fin 1000, maxInvestment = None, riskLevel = LOW,
      liquidityDays = Fin 7, taxBenefit = False, category = Cat_bank\<rparr>,
     \<lparr>type = MUTUAL_FUND, nameEn = ''Mutual Fund'', expectedReturn = Fin 12.3,
      minInvestment = Fin 5000, maxInvestment = None, riskLevel = MEDIUM,
      liquidityDays = Fin 3, taxBenefit = False, category = Cat_mutual_fund\<rparr>,
     \<lparr>type = STOCK, nameEn = ''Stock Market'', expectedReturn = Fin 15.8,
      minInvestment = Fin 10000, maxInvestment = None, riskLevel = HIGH,
      liquidityDays = Fin 1, taxBenefit = False, category = Cat_stock\<rparr>,
     \<lparr>type = BOND, nameEn = ''Government Bond'', expectedReturn = Fin 7.8,
      minInvestment = Fin 100000, maxInvestment = None, riskLevel = LOW,
      liquidityDays = Fin 30, taxBenefit = True, category = Cat_government\<rparr>]"

text \<open>
  The inputs of the service, with the fields it reads: of the user \<^verbatim>\<open>id\<close> and \<^verbatim>\<open>age\<close>,
  of the financial profile the four amounts, and the risk assessment as the questionnaire
  screen builds it (without \<^verbatim>\<open>completedAt\<close>). Where two records have a field of the same
  name, or a name is taken (\<^verbatim>\<open>id\<close>), the field carries a prefix.
\<close>

record User =
  user_id :: string
  age :: number

record FinancialProfile =
  monthlyIncome :: number
  monthlyExpenses :: number
  currentSavings :: number
  dependents :: number

record RiskAssessmentAnswer =
  questionId :: string
  answer :: string
  answer_score :: number

record RiskAssessment =
  userId :: string
  score :: number
  tolerance :: RiskTolerance
  answers :: "RiskAssessmentAnswer list"

text \<open>
  A recommendation as \<^verbatim>\<open>generateRecommendations\<close> builds it, without the fields that hold
  the clock (\<^verbatim>\<open>id\<close>, \<^verbatim>\<open>createdAt\<close>) or display text (\<^verbatim>\<open>reasoning\<close>, \<^verbatim>\<open>pros\<close>,
  \<^verbatim>\<open>cons\<close>).
\<close>

record InvestmentRecommendation =
  rec_userId :: string
  investmentType :: InvestmentType
  recommendedAmount :: number
  rec_expectedReturn :: number
  rec_riskLevel :: RiskLevel
  suitabilityScore :: number

section \<open>The recommendation service\<close>

definition filterByRiskTolerance ::
  "BangladeshInvestmentOption list \<Rightarrow> RiskTolerance \<Rightarrow> BangladeshInvestmentOption list" where
  "filterByRiskTolerance investments riskTolerance =
     (case riskTolerance of
        CONSERVATIVE \<Rightarrow> filter (\<lambda>inv. riskLevel inv = LOW) investments
      | MODERATE \<Rightarrow> filter (\<lambda>inv. riskLevel inv = LOW \<or> riskLevel inv = MEDIUM) investments
      | AGGRESSIVE \<Rightarrow> investments)"

text \<open>
  \<^verbatim>\<open>calculateSuitabilityScore\<close> adds six terms to \<^verbatim>\<open>score\<close>, one per commented block of
  its body. Each block is a definition here, named after its comment.
\<close>

definition ageFactor :: "BangladeshInvestmentOption \<Rightarrow> User \<Rightarrow> number" where
  "ageFactor investment user =
     (if age user < Fin 30 then
        (if riskLevel investment = HIGH then Fin 25
         else if riskLevel investment = MEDIUM then Fin 20 else Fin 15)
      else if age user < Fin 50 then
        (if riskLevel investment = MEDIUM then Fin 25
         else if riskLevel investment = LOW then Fin 20 else Fin 15)
      else
        (if riskLevel investment = LOW then Fin 25
         else if riskLevel investment = MEDIUM then Fin 15 else Fin 10))"

definition riskToleranceFactor :: "BangladeshInvestmentOption \<Rightarrow> RiskAssessment \<Rightarrow> number" where
  "riskToleranceFactor investment riskAssessment =
     (if tolerance riskAssessment = CONSERVATIVE then
        (if riskLevel investment = LOW then Fin 25 else Fin 0)
      else if tolerance riskAssessment = MODERATE then
        (if riskLevel investment = MEDIUM then Fin 25
         else if riskLevel investment = LOW then Fin 20 else Fin 10)
      else
        (if riskLevel investment = HIGH then Fin 25
         else if riskLevel investment = MEDIUM then Fin 20 else Fin 15))"

definition incomeFactor :: "FinancialProfile \<Rightarrow> number" where
  "incomeFactor financialProfile =
     (let monthlyIncome = monthlyIncome financialProfile in
      if monthlyIncome \<ge> Fin 100000 then Fin 20
      else if monthlyIncome \<ge> Fin 50000 then Fin 15
      else if monthlyIncome \<ge> Fin 25000 then Fin 10
      else Fin 5)"

definition savingsCapacityFactor :: "FinancialProfile \<Rightarrow> number" where
  "savingsCapacityFactor financialProfile =
     (let monthlyIncome = monthlyIncome financialProfile;
          savingsRate = (monthlyIncome - monthlyExpenses financialProfile) / monthlyIncome in
      if savingsRate \<ge> Fin 0.3 then Fin 15
      else if savingsRate \<ge> Fin 0.2 then Fin 12
      else if savingsRate \<ge> Fin 0.1 then Fin 8
      else Fin 3)"

definition dependentsFactor :: "FinancialProfile \<Rightarrow> number" where
  "dependentsFactor financialProfile =
     (if strict_eq (dependents financialProfile) (Fin 0) then Fin 10
      else if dependents financialProfile \<le> Fin 2 then Fin 7
      else Fin 3)"

definition emergencyFundFactor :: "FinancialProfile \<Rightarrow> number" where
  "emergencyFundFactor financialProfile =
     (let emergencyFundMonths =
            currentSavings financialProfile / monthlyExpenses financialProfile in
      if emergencyFundMonths \<ge> Fin 6 then Fin 5
      else if emergencyFundMonths \<ge> Fin 3 then Fin 3
      else Fin 1)"

definition calculateSuitabilityScore ::
  "BangladeshInvestmentOption \<Rightarrow> User \<Rightarrow> FinancialProfile \<Rightarrow> RiskAssessment \<Rightarrow> number" where
  "calculateSuitabilityScore investment user financialProfile riskAssessment =
     (let score = Fin 0;
          score = score + ageFactor investment user;
          score = score + riskToleranceFactor investment riskAssessment;
          score = score + incomeFactor financialProfile;
          score = score + savingsCapacityFactor financialProfile;
          score = score + dependentsFactor financialProfile;
          score = score + emergencyFundFactor financialProfile
      in Math_min score (Fin 100))"

definition calculateRecommendedAmount ::
  "BangladeshInvestmentOption \<Rightarrow> number \<Rightarrow> Allocation \<Rightarrow> number" where
  "calculateRecommendedAmount investment availableAmount allocation =
     (let percentage =
            (case category investment of
               Cat_government \<Rightarrow> or_else (government allocation) (Fin 20)
             | Cat_bank \<Rightarrow> or_else (bank allocation) (Fin 20)
             | Cat_stock \<Rightarrow> or_else (stocks allocation) (Fin 30)
             | Cat_mutual_fund \<Rightarrow> or_else (stocks allocation) (Fin 30)
             | _ \<Rightarrow> Fin 10);
          recommendedAmount = (availableAmount * percentage) / Fin 100
      in Math_max recommendedAmount (minInvestment investment))"

text \<open>
  \<^verbatim>\<open>Array.prototype.sort\<close> with a comparison function, as a stable insertion sort: an
  element moves behind another only where the comparison is positive.
\<close>

fun insert_by :: "('a \<Rightarrow> 'a \<Rightarrow> number) \<Rightarrow> 'a \<Rightarrow> 'a list \<Rightarrow> 'a list" where
  "insert_by cmp x [] = [x]"
| "insert_by cmp x (y # ys) =
     (if Fin 0 < cmp x y then y # insert_by cmp x ys else x # y # ys)"

definition Array_sort :: "('a \<Rightarrow> 'a \<Rightarrow> number) \<Rightarrow> 'a list \<Rightarrow> 'a list" where
  "Array_sort cmp xs = foldr (insert_by cmp) xs []"

text \<open>The body of the \<^verbatim>\<open>forEach\<close> of \<^verbatim>\<open>generateRecommendations\<close>: one instrument,
  pushed onto \<^verbatim>\<open>recommendations\<close> or skipped.\<close>

definition recommend ::
  "User \<Rightarrow> FinancialProfile \<Rightarrow> RiskAssessment \<Rightarrow> number \<Rightarrow> Allocation \<Rightarrow>
   InvestmentRecommendation list \<Rightarrow> BangladeshInvestmentOption \<Rightarrow> InvestmentRecommendation list" where
  "recommend user financialProfile riskAssessment availableAmount allocation recommendations investment =
     (let suitabilityScore =
            calculateSuitabilityScore investment user financialProfile riskAssessment in
      if suitabilityScore \<ge> Fin 60 then
        (let recommendedAmount =
               calculateRecommendedAmount investment availableAmount allocation in
         if recommendedAmount \<ge> minInvestment investment then
           recommendations @
             [\<lparr>rec_userId = user_id user,
               investmentType = type investment,
               recommendedAmount = recommendedAmount,
               rec_expectedReturn = expectedReturn investment,
               rec_riskLevel = riskLevel investment,
               suitabilityScore = suitabilityScore\<rparr>]
         else recommendations)
      else recommendations)"

definition generateRecommendations ::
  "User \<Rightarrow> FinancialProfile \<Rightarrow> RiskAssessment \<Rightarrow> InvestmentRecommendation list" where
  "generateRecommendations user financialProfile riskAssessment =
     (let availableAmount = monthlyIncome financialProfile - monthlyExpenses financialProfile;
          suitableInvestments =
            filterByRiskTolerance bangladeshInvestments (tolerance riskAssessment);
          allocation = calculateAssetAllocation (age user) (tolerance riskAssessment);
          recommendations =
            foldl (recommend user financialProfile riskAssessment availableAmount allocation)
              [] suitableInvestments
      in Array_sort (\<lambda>a b. suitabilityScore b - suitabilityScore a) recommendations)"

definition getInvestmentDetails :: "InvestmentType \<Rightarrow> BangladeshInvestmentOption option" where
  "getInvestmentDetails t = find (\<lambda>inv. type inv = t) bangladeshInvestments"

text \<open>
  The percentage the specification gives for an instrument: the allocation bucket of its
  category, 10 for a category without bucket.
\<close>

definition spec_percentage :: "Allocation \<Rightarrow> BangladeshInvestmentOption \<Rightarrow> number" where
  "spec_percentage allocation investment =
     (case category investment of
        Cat_government \<Rightarrow> government allocation
      | Cat_bank \<Rightarrow> bank allocation
      | Cat_stock \<Rightarrow> stocks allocation
      | Cat_mutual_fund \<Rightarrow> stocks allocation
      | _ \<Rightarrow> Fin 10)"

text \<open>
  The user of \<^verbatim>\<open>createMockUser\<close> (\<^verbatim>\<open>src/utils/mockData.ts\<close>) with the financial profile
  given there, and a risk assessment of a chosen tolerance: the inputs of the examples below.
\<close>

definition mockUser :: User where
  "mockUser = \<lparr>user_id = ''mock_user_123'', age = Fin 30\<rparr>"

definition mockProfile :: FinancialProfile where
  "mockProfile = \<lparr>monthlyIncome = Fin 50000, monthlyExpenses = Fin 30000,
                  currentSavings = Fin 100000, dependents = Fin 1\<rparr>"

definition mockAssessment :: "RiskTolerance \<Rightarrow> RiskAssessment" where
  "mockAssessment t =
     \<lparr>userId = ''mock_user_123'', score = Fin 0, tolerance = t, answers = []\<rparr>"

section \<open>Projection\<close>

subsection \<open>Binary64 arithmetic\<close>

text \<open>
  The projection compounds its value year after year and rounds what it returns, so its
  results depend on the rounding of every operation. It is therefore modelled on IEEE 754
  binary64, the format of \<^verbatim>\<open>number\<close>: an operation computes the exact result and rounds
  it to the nearest number of the format, a tie going to the even significand.

  A non-zero real \<open>x\<close> is rounded to a multiple of its quantum \<open>2 ^ q\<close>, where \<open>q\<close> is
  chosen so that \<open>\<bar>x\<bar> / 2 ^ q\<close> lies between \<open>2 ^ 52\<close> and \<open>2 ^ 53\<close>, but is not less
  than \<open>- 1074\<close> (the subnormal numbers). The search for \<open>q\<close> starts at 0 and stops at
  972 on the way up, where every result overflows. A result of magnitude \<open>2 ^ 1024\<close> or
  more is an infinity.
\<close>

function expo_down :: "real \<Rightarrow> int \<Rightarrow> int" where
  "expo_down y q = (if y < 2 ^ 52 \<and> - 1074 < q then expo_down (y * 2) (q - 1) else q)"
  by pat_completeness auto
termination
  by (relation "measure (\<lambda>(y, q). nat (q + 1074))") auto

function expo_up :: "real \<Rightarrow> int \<Rightarrow> int" where
  "expo_up y q = (if 2 ^ 53 \<le> y \<and> q < 972 then expo_up (y / 2) (q + 1) else q)"
  by pat_completeness auto
termination
  by (relation "measure (\<lambda>(y, q). nat (972 - q))") auto

definition quantum :: "real \<Rightarrow> int" where
  "quantum x = (if 2 ^ 53 \<le> \<bar>x\<bar> then expo_up \<bar>x\<bar> 0 else expo_down \<bar>x\<bar> 0)"

definition pow2 :: "int \<Rightarrow> real" where
  "pow2 q = (if 0 \<le> q then 2 ^ nat q else 1 / 2 ^ nat (- q))"

definition round_half_even :: "real \<Rightarrow> int" where
  "round_half_even r =
     (let f = \<lfloor>r\<rfloor> in
      if r - of_int f < 1 / 2 then f
      else if 1 / 2 < r - of_int f then f + 1
      else if even f then f else f + 1)"

definition round64 :: "number \<Rightarrow> number" where
  "round64 x =
     (case x of
        Fin r \<Rightarrow>
          if r = 0 then Fin 0
          else
            (let q = quantum r;
                 v = of_int (round_half_even (r / pow2 q)) * pow2 q
             in if 2 ^ 1024 \<le> \<bar>v\<bar> then (if 0 < v then PosInfinity else NegInfinity)
                else Fin v)
      | _ \<Rightarrow> x)"

text \<open>The four operations of \<^verbatim>\<open>number\<close> as the machine computes them.\<close>

definition add64 :: "number \<Rightarrow> number \<Rightarrow> number" where
  "add64 a b = round64 (a + b)"

definition sub64 :: "number \<Rightarrow> number \<Rightarrow> number" where
  "sub64 a b = round64 (a - b)"

definition mul64 :: "number \<Rightarrow> number \<Rightarrow> number" where
  "mul64 a b = round64 (a * b)"

definition div64 :: "number \<Rightarrow> number \<Rightarrow> number" where
  "div64 a b = round64 (a / b)"




subsection \<open>The projection\<close>

text \<open>
  One entry of \<^verbatim>\<open>yearlyBreakdown\<close>, with its fields \<^verbatim>\<open>year\<close>, \<^verbatim>\<open>investment\<close>,
  \<^verbatim>\<open>value\<close> and \<^verbatim>\<open>return\<close> under a prefix. The loop counter and its bound \<^verbatim>\<open>years\<close>
  are integers; a bound that is not an integer, or not finite, is outside the model.
\<close>

record YearEntry =
  entry_year :: int
  entry_investment :: number
  entry_value :: number
  entry_return :: number

text \<open>The \<^verbatim>\<open>for\<close> loop of \<^verbatim>\<open>calculateProjection\<close>, on the variables it updates:
  \<^verbatim>\<open>totalInvestment\<close>, \<^verbatim>\<open>currentValue\<close> and \<^verbatim>\<open>yearlyBreakdown\<close>.\<close>

function projectionLoop ::
  "number \<Rightarrow> number \<Rightarrow> int \<Rightarrow> int \<Rightarrow> number \<times> number \<times> YearEntry list \<Rightarrow>
   number \<times> number \<times> YearEntry list" where
  "projectionLoop annualReturn monthlyContribution years year
       (totalInvestment, currentValue, yearlyBreakdown) =
     (if year \<le> years then
        (let yearlyContribution = mul64 monthlyContribution (Fin 12);
             totalInvestment = add64 totalInvestment yearlyContribution;
             currentValue =
               mul64 (add64 currentValue yearlyContribution)
                 (add64 (Fin 1) (div64 annualReturn (Fin 100)))
         in projectionLoop annualReturn monthlyContribution years (year + 1)
              (totalInvestment, currentValue,
               yearlyBreakdown @
                 [\<lparr>entry_year = year,
                   entry_investment = totalInvestment,
                   entry_value = Math_round currentValue,
                   entry_return = Math_round (sub64 currentValue totalInvestment)\<rparr>]))
      else (totalInvestment, currentValue, yearlyBreakdown))"
  by pat_completeness auto
termination
  by (relation "measure (\<lambda>(r, m, years, year, s). nat (years + 1 - year))") auto

text \<open>The object \<^verbatim>\<open>calculateProjection\<close> returns.\<close>

record Projection =
  futureValue :: number
  totalInvestment :: number
  totalReturn :: number
  yearlyBreakdown :: "YearEntry list"

definition calculateProjection :: "number \<Rightarrow> number \<Rightarrow> int \<Rightarrow> number \<Rightarrow> Projection" where
  "calculateProjection amount annualReturn years monthlyContribution =
     (case projectionLoop annualReturn monthlyContribution years 1 (amount, amount, []) of
        (invested, currentValue, breakdown) \<Rightarrow>
          \<lparr>futureValue = Math_round currentValue,
           totalInvestment = invested,
           totalReturn = Math_round (sub64 currentValue invested),
           yearlyBreakdown = breakdown\<rparr>)"

text \<open>
  The recurrence the specification gives for the projection, year by year, in the same
  arithmetic: the amount invested after \<open>k\<close> years, the value after \<open>k\<close> years, and the
  entry recorded for year \<open>k\<close>.
\<close>

fun spec_totalInvestment :: "number \<Rightarrow> number \<Rightarrow> nat \<Rightarrow> number" where
  "spec_totalInvestment amount monthlyContribution 0 = amount"
| "spec_totalInvestment amount monthlyContribution (Suc k) =
     add64 (spec_totalInvestment amount monthlyContribution k)
       (mul64 (Fin 12) monthlyContribution)"

fun spec_currentValue :: "number \<Rightarrow> number \<Rightarrow> number \<Rightarrow> nat \<Rightarrow> number" where
  "spec_currentValue amount annualReturn monthlyContribution 0 = amount"
| "spec_currentValue amount annualReturn monthlyContribution (Suc k) =
     mul64
       (add64 (spec_currentValue amount annualReturn monthlyContribution k)
          (mul64 (Fin 12) monthlyContribution))
       (add64 (Fin 1) (div64 annualReturn (Fin 100)))"

definition spec_entry :: "number \<Rightarrow> number \<Rightarrow> number \<Rightarrow> nat \<Rightarrow> YearEntry" where
  "spec_entry amount annualReturn monthlyContribution k =
     \<lparr>entry_year = int k,
      entry_investment = spec_totalInvestment amount monthlyContribution k,
      entry_value = Math_round (spec_currentValue amount annualReturn monthlyContribution k),
      entry_return =
        Math_round
          (sub64 (spec_currentValue amount annualReturn monthlyContribution k)
             (spec_totalInvestment amount monthlyContribution k))\<rparr>"

definition spec_breakdown :: "number \<Rightarrow> number \<Rightarrow> nat \<Rightarrow> number \<Rightarrow> YearEntry list" where
  "spec_breakdown amount annualReturn years monthlyContribution =
     map (spec_entry amount annualReturn monthlyContribution) [1..<Suc years]"

section \<open>Risk questionnaire\<close>

text \<open>
  The questions of the risk assessment screen: of a question its \<^verbatim>\<open>id\<close> and its options,
  of an option its \<^verbatim>\<open>value\<close> and \<^verbatim>\<open>score\<close>. The question text and the labels are display
  text.
\<close>

record QuestionOption =
  option_value :: string
  option_score :: number

record Question =
  question_id :: string
  options :: "QuestionOption list"

definition riskQuestions :: "Question list" where
  "riskQuestions =
    [\<lparr>question_id = ''q1'', options =
        [\<lparr>option_value = ''under25'', option_score = Fin 4\<rparr>,
         \<lparr>option_value = ''25to35'', option_score = Fin 3\<rparr>,
         \<lparr>option_value = ''35to50'', option_score = Fin 2\<rparr>,
         \<lparr>option_value = ''over50'', option_score = Fin 1\<rparr>]\<rparr>,
     \<lparr>question_id = ''q2'', options =
        [\<lparr>option_value = ''none'', option_score = Fin 1\<rparr>,
         \<lparr>option_value = ''limited'', option_score = Fin 2\<rparr>,
         \<lparr>option_value = ''moderate'', option_score = Fin 3\<rparr>,
         \<lparr>option_value = ''extensive'', option_score = Fin 4\<rparr>]\<rparr>,
     \<lparr>question_id = ''q3'', options =
        [\<lparr>option_value = ''capital_preservation'', option_score = Fin 1\<rparr>,
         \<lparr>option_value = ''income_generation'', option_score = Fin 2\<rparr>,
         \<lparr>option_value = ''balanced_growth'', option_score = Fin 3\<rparr>,
         \<lparr>option_value = ''aggressive_growth'', option_score = Fin 4\<rparr>]\<rparr>,
     \<lparr>question_id = ''q4'', options =
        [\<lparr>option_value = ''short'', option_score = Fin 1\<rparr>,
         \<lparr>option_value = ''medium_short'', option_score = Fin 2\<rparr>,
         \<lparr>option_value = ''medium_long'', option_score = Fin 3\<rparr>,
         \<lparr>option_value = ''long'', option_score = Fin 4\<rparr>]\<rparr>,
     \<lparr>question_id = ''q5'', options =
        [\<lparr>option_value = ''sell_immediately'', option_score = Fin 1\<rparr>,
         \<lparr>option_value = ''sell_some'', option_score = Fin 2\<rparr>,
         \<lparr>option_value = ''hold'', option_score = Fin 3\<rparr>,
         \<lparr>option_value = ''buy_more'', option_score = Fin 4\<rparr>]\<rparr>,
     \<lparr>question_id = ''q6'', options =
        [\<lparr>option_value = ''very_low'', option_score = Fin 1\<rparr>,
         \<lparr>option_value = ''low'', option_score = Fin 2\<rparr>,
         \<lparr>option_value = ''moderate'', option_score = Fin 3\<rparr>,
         \<lparr>option_value = ''high'', option_score = Fin 4\<rparr>]\<rparr>,
     \<lparr>question_id = ''q7'', options =
        [\<lparr>option_value = ''none'', option_score = Fin 1\<rparr>,
         \<lparr>option_value = ''partial'', option_score = Fin 2\<rparr>,
         \<lparr>option_value = ''adequate'', option_score = Fin 3\<rparr>,
         \<lparr>option_value = ''excellent'', option_score = Fin 4\<rparr>]\<rparr>,
     \<lparr>question_id = ''q8'', options =
        [\<lparr>option_value = ''very_conservative'', option_score = Fin 1\<rparr>,
         \<lparr>option_value = ''conservative'', option_score = Fin 2\<rparr>,
         \<lparr>option_value = ''moderate'', option_score = Fin 3\<rparr>,
         \<lparr>option_value = ''aggressive'', option_score = Fin 4\<rparr>]\<rparr>]"

text \<open>
  The body of the \<^verbatim>\<open>forEach\<close> of \<^verbatim>\<open>calculateRiskScore\<close>, on \<^verbatim>\<open>totalScore\<close> and
  \<^verbatim>\<open>assessmentAnswers\<close>. The state \<^verbatim>\<open>answers\<close> of the screen maps a question id to the
  chosen option value; a missing key and the empty string are falsy.
\<close>

definition scoreQuestion ::
  "(string \<rightharpoonup> string) \<Rightarrow> number \<times> RiskAssessmentAnswer list \<Rightarrow> Question \<Rightarrow>
   number \<times> RiskAssessmentAnswer list" where
  "scoreQuestion selected acc question =
     (case acc of (totalScore, assessmentAnswers) \<Rightarrow>
        (case selected (question_id question) of
           None \<Rightarrow> (totalScore, assessmentAnswers)
         | Some selectedAnswer \<Rightarrow>
             if selectedAnswer = [] then (totalScore, assessmentAnswers)
             else
               (case find (\<lambda>opt. option_value opt = selectedAnswer) (options question) of
                  None \<Rightarrow> (totalScore, assessmentAnswers)
                | Some option \<Rightarrow>
                    (totalScore + option_score option,
                     assessmentAnswers @
                       [\<lparr>questionId = question_id question,
                         answer = selectedAnswer,
                         answer_score = option_score option\<rparr>]))))"

text \<open>
  \<^verbatim>\<open>calculateRiskScore\<close> reads the state \<^verbatim>\<open>answers\<close> and the user id (the empty string
  when there is no user), stores the assessment and shows the tolerance with the score
  percentage: it returns both here. The field \<^verbatim>\<open>completedAt\<close> holds the clock and is left
  out.
\<close>

definition calculateRiskScore :: "(string \<rightharpoonup> string) \<Rightarrow> string \<Rightarrow> RiskAssessment \<times> number" where
  "calculateRiskScore selected uid =
     (case foldl (scoreQuestion selected) (Fin 0, []) riskQuestions of
        (totalScore, assessmentAnswers) \<Rightarrow>
          (let maxScore = Fin (of_nat (length riskQuestions)) * Fin 4;
               scorePercentage = (totalScore / maxScore) * Fin 100;
               riskTolerance =
                 (if scorePercentage \<le> Fin 40 then CONSERVATIVE
                  else if scorePercentage \<le> Fin 70 then MODERATE
                  else AGGRESSIVE)
           in (\<lparr>userId = uid, score = totalScore, tolerance = riskTolerance,
                answers = assessmentAnswers\<rparr>,
               scorePercentage)))"

text \<open>The tiers of risk tolerance in ascending order.\<close>

fun tier :: "RiskTolerance \<Rightarrow> nat" where
  "tier CONSERVATIVE = 0"
| "tier MODERATE = 1"
| "tier AGGRESSIVE = 2"

text \<open>
  A full answer set: every question has one of its options chosen. Two of them, the
  options of lowest and of highest score, serve as examples.
\<close>

definition fullAnswerSet :: "(string \<rightharpoonup> string) \<Rightarrow> bool" where
  "fullAnswerSet selected =
     list_all (\<lambda>q. list_ex (\<lambda>opt. selected (question_id q) = Some (option_value opt)) (options q))
       riskQuestions"

definition lowestAnswers :: "string \<rightharpoonup> string" where
  "lowestAnswers =
     [''q1'' \<mapsto> ''over50'', ''q2'' \<mapsto> ''none'', ''q3'' \<mapsto> ''capital_preservation'',
      ''q4'' \<mapsto> ''short'', ''q5'' \<mapsto> ''sell_immediately'', ''q6'' \<mapsto> ''very_low'',
      ''q7'' \<mapsto> ''none'', ''q8'' \<mapsto> ''very_conservative'']"

definition highestAnswers :: "string \<rightharpoonup> string" where
  "highestAnswers =
     [''q1'' \<mapsto> ''under25'', ''q2'' \<mapsto> ''extensive'', ''q3'' \<mapsto> ''aggressive_growth'',
      ''q4'' \<mapsto> ''long'', ''q5'' \<mapsto> ''buy_more'', ''q6'' \<mapsto> ''high'',
      ''q7'' \<mapsto> ''excellent'', ''q8'' \<mapsto> ''aggressive'']"

section \<open>Arithmetic of finite numbers\<close>

lemma Fin_arith [simp]:
  "Fin a + Fin b = Fin (a + b)"
  "Fin a - Fin b = Fin (a - b)"
  "Fin a * Fin b = Fin (a * b)"
  "b \<noteq> 0 \<Longrightarrow> Fin a / Fin b = Fin (a / b)"
  by (simp_all add: plus_number_def minus_number_def times_number_def divide_number_def)

lemma Fin_compare [simp]:
  "Fin a < Fin b \<longleftrightarrow> a < b"
  "Fin a \<le> Fin b \<longleftrightarrow> a \<le> b"
  by (auto simp: less_number_def less_eq_number_def strict_eq_def)

lemma Math_Fin [simp]:
  "Math_max (Fin a) (Fin b) = Fin (max a b)"
  "Math_min (Fin a) (Fin b) = Fin (min a b)"
  by (auto simp: Math_max_def Math_min_def)

lemma integer_between_literal [simp]:
  "integer_between lo hi (Fin (numeral n)) \<longleftrightarrow> lo \<le> numeral n \<and> numeral n \<le> hi"
  "integer_between lo hi (Fin 0) \<longleftrightarrow> lo \<le> 0 \<and> 0 \<le> hi"
  "integer_between lo hi (Fin 1) \<longleftrightarrow> lo \<le> 1 \<and> 1 \<le> hi"
  by (simp_all add: integer_between_def)

lemma integer_between_FinE:
  assumes "integer_between lo hi x"
  obtains k where "x = Fin (of_int k)" and "lo \<le> k" and "k \<le> hi"
proof -
  from assms obtain r where r: "x = Fin r" "r = of_int \<lfloor>r\<rfloor>" "of_int lo \<le> r" "r \<le> of_int hi"
    by (auto simp: integer_between_def split: number.splits)
  from r(2,3) have "lo \<le> \<lfloor>r\<rfloor>" by (metis of_int_le_iff)
  moreover from r(2,4) have "\<lfloor>r\<rfloor> \<le> hi" by (metis of_int_le_iff)
  ultimately show thesis using r(1,2) that by blast
qed

lemma integer_between_of_int [simp]:
  "integer_between lo hi (Fin (of_int k)) \<longleftrightarrow> lo \<le> k \<and> k \<le> hi"
  by (simp add: integer_between_def)

lemma integer_between_add:
  assumes "integer_between a b x" and "integer_between c d y"
  shows "integer_between (a + c) (b + d) (x + y)"
proof -
  from assms(1) obtain j where x: "x = Fin (of_int j)" "a \<le> j" "j \<le> b"
    by (rule integer_between_FinE)
  from assms(2) obtain k where y: "y = Fin (of_int k)" "c \<le> k" "k \<le> d"
    by (rule integer_between_FinE)
  have "x + y = Fin (of_int (j + k))" using x(1) y(1) by simp
  then show ?thesis using x(2,3) y(2,3) by (simp only: integer_between_of_int) simp
qed

lemma integer_between_min:
  assumes "integer_between a b x" and "a \<le> h"
  shows "integer_between a h (Math_min x (Fin (of_int h)))"
proof -
  from assms(1) obtain j where x: "x = Fin (of_int j)" "a \<le> j" "j \<le> b"
    by (rule integer_between_FinE)
  have "Math_min x (Fin (of_int h)) = Fin (of_int (min j h))"
    using x(1) by (simp add: min_def)
  then show ?thesis using x(2) assms(2) by (simp only: integer_between_of_int) simp
qed

lemma integer_between_mono:
  "integer_between a b x \<Longrightarrow> a' \<le> a \<Longrightarrow> b \<le> b' \<Longrightarrow> integer_between a' b' x"
  by (erule integer_between_FinE) simp

section \<open>Asset allocation\<close>

text \<open>
  Claim C1, as stated, bounds the stock share by 10 and 80 for every age from 18 to 100 and
  every risk tolerance. The moderate branch leaves \<open>100 - age\<close> as it is, so an
  18-year-old moderate investor gets 82 percent.
\<close>

theorem moderate_stocks_exceed_cap:
  "stocks (calculateAssetAllocation (Fin 18) MODERATE) = Fin 82
   \<and> \<not> stocks (calculateAssetAllocation (Fin 18) MODERATE) \<le> Fin 80"
  by (simp add: calculateAssetAllocation_def Let_def)

text \<open>
  Claim C1, amended: for every age from 18 to 100 the stock share is \<open>100 - age\<close>, lowered
  by 20 with a floor of 10 for a conservative investor, raised by 20 with a cap of 80 for an
  aggressive one, unchanged for a moderate one; it lies between 10 and 80 for conservative
  and aggressive investors and between 0 and 82 for moderate ones; the government share is
  at most 40 and the bank share at most 30.
\<close>

theorem allocation_bounds:
  assumes "18 \<le> a" and "a \<le> 100"
  shows "stocks (calculateAssetAllocation (Fin a) t) =
           Fin (case t of CONSERVATIVE \<Rightarrow> max (100 - a - 20) 10
                        | AGGRESSIVE \<Rightarrow> min (100 - a + 20) 80
                        | MODERATE \<Rightarrow> 100 - a)
       \<and> Fin (case t of MODERATE \<Rightarrow> 0 | _ \<Rightarrow> 10) \<le> stocks (calculateAssetAllocation (Fin a) t)
       \<and> stocks (calculateAssetAllocation (Fin a) t) \<le> Fin (case t of MODERATE \<Rightarrow> 82 | _ \<Rightarrow> 80)
       \<and> government (calculateAssetAllocation (Fin a) t) \<le> Fin 40
       \<and> bank (calculateAssetAllocation (Fin a) t) \<le> Fin 30"
  using assms by (cases t) (simp_all add: calculateAssetAllocation_def Let_def)

theorem allocation_bounds_witness:
  "(18::real) \<le> 30 \<and> (30::real) \<le> 100
   \<and> stocks (calculateAssetAllocation (Fin 30) CONSERVATIVE) = Fin 50
   \<and> Fin 10 \<le> stocks (calculateAssetAllocation (Fin 30) CONSERVATIVE)
   \<and> stocks (calculateAssetAllocation (Fin 30) CONSERVATIVE) \<le> Fin 80
   \<and> government (calculateAssetAllocation (Fin 30) CONSERVATIVE) \<le> Fin 40
   \<and> bank (calculateAssetAllocation (Fin 30) CONSERVATIVE) \<le> Fin 30"
  using allocation_bounds [of 30 CONSERVATIVE] by simp

text \<open>
  Claim C10: for every (finite) age and every risk tolerance the stock and bond shares add
  up to exactly 100, while the government and bank shares together never exceed the bond
  share and can fall short of it: at age 100, moderate, they are 70 of 100.
\<close>

theorem stocks_bonds_sum_100:
  "stocks (calculateAssetAllocation (Fin a) t) + bonds (calculateAssetAllocation (Fin a) t) = Fin 100
   \<and> government (calculateAssetAllocation (Fin a) t) + bank (calculateAssetAllocation (Fin a) t)
        \<le> bonds (calculateAssetAllocation (Fin a) t)
   \<and> government (calculateAssetAllocation (Fin 100) MODERATE)
        + bank (calculateAssetAllocation (Fin 100) MODERATE) = Fin 70
   \<and> bonds (calculateAssetAllocation (Fin 100) MODERATE) = Fin 100"
  by (cases t) (auto simp add: calculateAssetAllocation_def Let_def min_def max_def field_simps)

section \<open>Suitability score\<close>

lemma ageFactor_range: "integer_between 10 25 (ageFactor investment user)"
  by (simp add: ageFactor_def)

lemma riskToleranceFactor_range:
  "integer_between 0 25 (riskToleranceFactor investment riskAssessment)"
  by (simp add: riskToleranceFactor_def)

lemma incomeFactor_range: "integer_between 5 20 (incomeFactor financialProfile)"
  by (simp add: incomeFactor_def Let_def)

lemma savingsCapacityFactor_range:
  "integer_between 3 15 (savingsCapacityFactor financialProfile)"
  by (simp add: savingsCapacityFactor_def Let_def)

lemma dependentsFactor_range: "integer_between 3 10 (dependentsFactor financialProfile)"
  by (simp add: dependentsFactor_def)

lemma emergencyFundFactor_range: "integer_between 1 5 (emergencyFundFactor financialProfile)"
  by (simp add: emergencyFundFactor_def Let_def)

lemma score_sum_range:
  "integer_between 22 100
     (Fin 0 + ageFactor i u + riskToleranceFactor i ra + incomeFactor fp
      + savingsCapacityFactor fp + dependentsFactor fp + emergencyFundFactor fp)"
proof -
  have z: "integer_between 0 0 (Fin 0)" by simp
  note s1 = integer_between_add [OF z ageFactor_range [of i u]]
  note s2 = integer_between_add [OF s1 riskToleranceFactor_range [of i ra]]
  note s3 = integer_between_add [OF s2 incomeFactor_range [of fp]]
  note s4 = integer_between_add [OF s3 savingsCapacityFactor_range [of fp]]
  note s5 = integer_between_add [OF s4 dependentsFactor_range [of fp]]
  note s6 = integer_between_add [OF s5 emergencyFundFactor_range [of fp]]
  from s6 show ?thesis by simp
qed

lemma calculateSuitabilityScore_range:
  "integer_between 22 100 (calculateSuitabilityScore i u fp ra)"
  using integer_between_min [OF score_sum_range [of i u ra fp], of 100]
  by (simp add: calculateSuitabilityScore_def Let_def)

lemma emergencyFundFactor_no_expenses:
  assumes "monthlyExpenses fp = Fin 0" and "currentSavings fp = Fin s"
  shows "emergencyFundFactor fp = (if 0 < s then Fin 5 else Fin 1)"
  using assms
  by (simp add: emergencyFundFactor_def Let_def divide_number_def signed_infinity_def
        less_eq_number_def strict_eq_def)

text \<open>
  Claim C8, as stated, puts the emergency-fund term in the 5-point tier whenever the monthly
  expenses are 0. With no savings either, the quotient is \<^verbatim>\<open>0 / 0 = NaN\<close>, both
  comparisons fail and the term is 1: a 25-year-old aggressive investor with an income of
  100000, no expenses, no dependents and no savings scores 96 on the stock market, not 100.
\<close>

theorem emergency_fund_without_savings:
  "monthlyExpenses \<lparr>monthlyIncome = Fin 100000, monthlyExpenses = Fin 0,
                    currentSavings = Fin 0, dependents = Fin 0\<rparr> = Fin 0
   \<and> emergencyFundFactor \<lparr>monthlyIncome = Fin 100000, monthlyExpenses = Fin 0,
                          currentSavings = Fin 0, dependents = Fin 0\<rparr> = Fin 1
   \<and> calculateSuitabilityScore (bangladeshInvestments ! 4) \<lparr>user_id = ''u1'', age = Fin 25\<rparr>
        \<lparr>monthlyIncome = Fin 100000, monthlyExpenses = Fin 0,
         currentSavings = Fin 0, dependents = Fin 0\<rparr>
        \<lparr>userId = ''u1'', score = Fin 32, tolerance = AGGRESSIVE, answers = []\<rparr> = Fin 96"
  by (simp add: emergencyFundFactor_def Let_def divide_number_def signed_infinity_def
        less_eq_number_def strict_eq_def calculateSuitabilityScore_def
        ageFactor_def riskToleranceFactor_def incomeFactor_def savingsCapacityFactor_def
        dependentsFactor_def bangladeshInvestments_def)

text \<open>
  Claim C8, amended: for all inputs, zero income or zero expenses included, the suitability
  score is an integer between 0 and 100 and never \<^verbatim>\<open>NaN\<close> (the function has no failing
  path); with monthly expenses of 0 the emergency-fund term is the 5-point tier when the
  current savings are positive and the 1-point tier when they are zero or negative.
\<close>

theorem suitability_score_well_defined:
  "integer_between 0 100 (calculateSuitabilityScore investment user fp riskAssessment)
   \<and> (monthlyExpenses fp = Fin 0 \<longrightarrow> currentSavings fp = Fin s \<longrightarrow>
        emergencyFundFactor fp = (if 0 < s then Fin 5 else Fin 1))"
  using calculateSuitabilityScore_range [of investment user fp riskAssessment]
    emergencyFundFactor_no_expenses [of fp s]
  by (simp add: integer_between_mono)

theorem suitability_score_well_defined_witness:
  "monthlyExpenses \<lparr>monthlyIncome = Fin 0, monthlyExpenses = Fin 0,
                    currentSavings = Fin 50000, dependents = Fin 1\<rparr> = Fin 0
   \<and> currentSavings \<lparr>monthlyIncome = Fin 0, monthlyExpenses = Fin 0,
                     currentSavings = Fin 50000, dependents = Fin 1\<rparr> = Fin 50000
   \<and> integer_between 0 100
        (calculateSuitabilityScore (bangladeshInvestments ! 0) \<lparr>user_id = ''u1'', age = Fin 40\<rparr>
           \<lparr>monthlyIncome = Fin 0, monthlyExpenses = Fin 0,
            currentSavings = Fin 50000, dependents = Fin 1\<rparr>
           \<lparr>userId = ''u1'', score = Fin 10, tolerance = CONSERVATIVE, answers = []\<rparr>)
   \<and> emergencyFundFactor \<lparr>monthlyIncome = Fin 0, monthlyExpenses = Fin 0,
                          currentSavings = Fin 50000, dependents = Fin 1\<rparr> = Fin 5"
  using suitability_score_well_defined
    [of "bangladeshInvestments ! 0" "\<lparr>user_id = ''u1'', age = Fin 40\<rparr>"
        "\<lparr>monthlyIncome = Fin 0, monthlyExpenses = Fin 0,
          currentSavings = Fin 50000, dependents = Fin 1\<rparr>"
        "\<lparr>userId = ''u1'', score = Fin 10, tolerance = CONSERVATIVE, answers = []\<rparr>" 50000]
  by simp

section \<open>Recommendations\<close>

lemma type_distinct: "distinct (map type bangladeshInvestments)"
  by (simp add: bangladeshInvestments_def)

lemma find_distinct_key:
  "distinct (map f xs) \<Longrightarrow> x \<in> set xs \<Longrightarrow> find (\<lambda>y. f y = f x) xs = Some x"
  by (induction xs) auto

lemma getInvestmentDetails_catalog:
  "x \<in> set bangladeshInvestments \<Longrightarrow> getInvestmentDetails (type x) = Some x"
  unfolding getInvestmentDetails_def by (rule find_distinct_key [OF type_distinct])

lemma recommend_append:
  "recommend u fp ra av al acc x = acc @ recommend u fp ra av al [] x"
  by (simp add: recommend_def Let_def)

lemma foldl_recommend:
  "foldl (recommend u fp ra av al) acc xs =
     acc @ concat (map (recommend u fp ra av al []) xs)"
proof (induction xs arbitrary: acc)
  case Nil
  then show ?case by simp
next
  case (Cons x xs)
  show ?case
    by (simp add: Cons.IH [of "recommend u fp ra av al acc x"])
       (subst recommend_append, simp)
qed

lemma set_insert_by [simp]: "set (insert_by cmp x ys) = insert x (set ys)"
  by (induction ys) auto

lemma set_Array_sort [simp]: "set (Array_sort cmp xs) = set xs"
  unfolding Array_sort_def by (induction xs) auto

text \<open>Every recommendation returned was built from an instrument that passed the filter
  and both checks.\<close>

lemma generateRecommendations_member:
  assumes "r \<in> set (generateRecommendations u fp ra)"
  obtains x where
    "x \<in> set (filterByRiskTolerance bangladeshInvestments (tolerance ra))"
    "Fin 60 \<le> calculateSuitabilityScore x u fp ra"
    "minInvestment x \<le>
       calculateRecommendedAmount x (monthlyIncome fp - monthlyExpenses fp)
         (calculateAssetAllocation (age u) (tolerance ra))"
    "r = \<lparr>rec_userId = user_id u,
          investmentType = type x,
          recommendedAmount =
            calculateRecommendedAmount x (monthlyIncome fp - monthlyExpenses fp)
              (calculateAssetAllocation (age u) (tolerance ra)),
          rec_expectedReturn = expectedReturn x,
          rec_riskLevel = riskLevel x,
          suitabilityScore = calculateSuitabilityScore x u fp ra\<rparr>"
proof -
  from assms obtain x where
    x: "x \<in> set (filterByRiskTolerance bangladeshInvestments (tolerance ra))" and
    r: "r \<in> set (recommend u fp ra (monthlyIncome fp - monthlyExpenses fp)
                  (calculateAssetAllocation (age u) (tolerance ra)) [] x)"
    by (auto simp: generateRecommendations_def Let_def foldl_recommend)
  from r x that show thesis
    by (simp add: recommend_def Let_def split: if_splits)
qed

lemma filterByRiskTolerance_subset:
  "x \<in> set (filterByRiskTolerance xs t) \<Longrightarrow> x \<in> set xs"
  by (cases t) (auto simp: filterByRiskTolerance_def)

lemma filterByRiskTolerance_level:
  "x \<in> set (filterByRiskTolerance xs t) \<Longrightarrow>
     (t = CONSERVATIVE \<longrightarrow> riskLevel x = LOW) \<and>
     (t = MODERATE \<longrightarrow> riskLevel x = LOW \<or> riskLevel x = MEDIUM)"
  by (cases t) (auto simp: filterByRiskTolerance_def)

lemma generateRecommendations_score:
  assumes "r \<in> set (generateRecommendations u fp ra)"
  shows "integer_between 60 100 (suitabilityScore r)"
proof -
  from assms obtain x where
    s: "Fin 60 \<le> calculateSuitabilityScore x u fp ra" and
    r: "suitabilityScore r = calculateSuitabilityScore x u fp ra"
    by (rule generateRecommendations_member) simp
  obtain k where k: "calculateSuitabilityScore x u fp ra = Fin (of_int k)" "k \<le> 100"
    using calculateSuitabilityScore_range [of x u fp ra] by (rule integer_between_FinE)
  from s k have "60 \<le> k" by simp
  with k r show ?thesis by simp
qed

lemma type_eq:
  assumes "x \<in> set bangladeshInvestments" "y \<in> set bangladeshInvestments" "type y = type x"
  shows "y = x"
  using getInvestmentDetails_catalog [OF assms(1)] getInvestmentDetails_catalog [OF assms(2)] assms(3)
  by simp

lemma recommendation_origin:
  assumes "r \<in> set (generateRecommendations u fp ra)"
  obtains x where "x \<in> set (filterByRiskTolerance bangladeshInvestments (tolerance ra))"
    "getInvestmentDetails (investmentType r) = Some x" "rec_riskLevel r = riskLevel x"
proof -
  from assms obtain x where x: "x \<in> set (filterByRiskTolerance bangladeshInvestments (tolerance ra))"
    and r: "investmentType r = type x" "rec_riskLevel r = riskLevel x"
    by (rule generateRecommendations_member) simp
  from x have "x \<in> set bangladeshInvestments" by (rule filterByRiskTolerance_subset)
  then have "getInvestmentDetails (investmentType r) = Some x"
    using r(1) by (simp add: getInvestmentDetails_catalog)
  with x r(2) that show thesis by blast
qed

subsection \<open>Examples\<close>

lemmas score_defs = calculateSuitabilityScore_def ageFactor_def riskToleranceFactor_def
  incomeFactor_def savingsCapacityFactor_def dependentsFactor_def emergencyFundFactor_def

lemmas recommendation_defs = generateRecommendations_def filterByRiskTolerance_def
  bangladeshInvestments_def recommend_def calculateRecommendedAmount_def
  calculateAssetAllocation_def Array_sort_def or_else_def truthy_def strict_eq_def Let_def

lemmas mock_defs = mockUser_def mockProfile_def mockAssessment_def

lemma mock_conservative:
  "generateRecommendations mockUser mockProfile (mockAssessment CONSERVATIVE) =
    [\<lparr>rec_userId = ''mock_user_123'', investmentType = SANCHAYAPATRA,
      recommendedAmount = Fin 6000, rec_expectedReturn = Fin 8.5,
      rec_riskLevel = LOW, suitabilityScore = Fin 85\<rparr>,
     \<lparr>rec_userId = ''mock_user_123'', investmentType = DPS,
      recommendedAmount = Fin 4000, rec_expectedReturn = Fin 7.2,
      rec_riskLevel = LOW, suitabilityScore = Fin 85\<rparr>,
     \<lparr>rec_userId = ''mock_user_123'', investmentType = FIXED_DEPOSIT,
      recommendedAmount = Fin 4000, rec_expectedReturn = Fin 6.5,
      rec_riskLevel = LOW, suitabilityScore = Fin 85\<rparr>,
     \<lparr>rec_userId = ''mock_user_123'', investmentType = BOND,
      recommendedAmount = Fin 100000, rec_expectedReturn = Fin 7.8,
      rec_riskLevel = LOW, suitabilityScore = Fin 85\<rparr>]"
  by (simp add: mock_defs recommendation_defs score_defs)

lemma mock_moderate:
  "generateRecommendations mockUser mockProfile (mockAssessment MODERATE) =
    [\<lparr>rec_userId = ''mock_user_123'', investmentType = MUTUAL_FUND,
      recommendedAmount = Fin 14000, rec_expectedReturn = Fin 12.3,
      rec_riskLevel = MEDIUM, suitabilityScore = Fin 90\<rparr>,
     \<lparr>rec_userId = ''mock_user_123'', investmentType = SANCHAYAPATRA,
      recommendedAmount = Fin 3600, rec_expectedReturn = Fin 8.5,
      rec_riskLevel = LOW, suitabilityScore = Fin 80\<rparr>,
     \<lparr>rec_userId = ''mock_user_123'', investmentType = DPS,
      recommendedAmount = Fin 2400, rec_expectedReturn = Fin 7.2,
      rec_riskLevel = LOW, suitabilityScore = Fin 80\<rparr>,
     \<lparr>rec_userId = ''mock_user_123'', investmentType = FIXED_DEPOSIT,
      recommendedAmount = Fin 2400, rec_expectedReturn = Fin 6.5,
      rec_riskLevel = LOW, suitabilityScore = Fin 80\<rparr>,
     \<lparr>rec_userId = ''mock_user_123'', investmentType = BOND,
      recommendedAmount = Fin 100000, rec_expectedReturn = Fin 7.8,
      rec_riskLevel = LOW, suitabilityScore = Fin 80\<rparr>]"
  by (simp add: mock_defs recommendation_defs score_defs)

lemma mock_overspent:
  "generateRecommendations mockUser (mockProfile\<lparr>monthlyExpenses := Fin 60000\<rparr>)
     (mockAssessment CONSERVATIVE) =
    [\<lparr>rec_userId = ''mock_user_123'', investmentType = SANCHAYAPATRA,
      recommendedAmount = Fin 1000, rec_expectedReturn = Fin 8.5,
      rec_riskLevel = LOW, suitabilityScore = Fin 71\<rparr>,
     \<lparr>rec_userId = ''mock_user_123'', investmentType = DPS,
      recommendedAmount = Fin 500, rec_expectedReturn = Fin 7.2,
      rec_riskLevel = LOW, suitabilityScore = Fin 71\<rparr>,
     \<lparr>rec_userId = ''mock_user_123'', investmentType = FIXED_DEPOSIT,
      recommendedAmount = Fin 1000, rec_expectedReturn = Fin 6.5,
      rec_riskLevel = LOW, suitabilityScore = Fin 71\<rparr>,
     \<lparr>rec_userId = ''mock_user_123'', investmentType = BOND,
      recommendedAmount = Fin 100000, rec_expectedReturn = Fin 7.8,
      rec_riskLevel = LOW, suitabilityScore = Fin 71\<rparr>]"
  by (simp add: mock_defs recommendation_defs score_defs)

lemma mock_aggressive:
  "generateRecommendations mockUser
     (mockProfile\<lparr>monthlyExpenses := Fin 48000, currentSavings := Fin 50000,
        dependents := Fin 3\<rparr>)
     (mockAssessment AGGRESSIVE) =
    [\<lparr>rec_userId = ''mock_user_123'', investmentType = MUTUAL_FUND,
      recommendedAmount = Fin 5000, rec_expectedReturn = Fin 12.3,
      rec_riskLevel = MEDIUM, suitabilityScore = Fin 67\<rparr>,
     \<lparr>rec_userId = ''mock_user_123'', investmentType = STOCK,
      recommendedAmount = Fin 10000, rec_expectedReturn = Fin 15.8,
      rec_riskLevel = HIGH, suitabilityScore = Fin 62\<rparr>]"
  by (simp add: mock_defs recommendation_defs score_defs)

lemma getInvestmentDetails_values:
  "getInvestmentDetails SANCHAYAPATRA = Some (bangladeshInvestments ! 0)"
  "getInvestmentDetails MUTUAL_FUND = Some (bangladeshInvestments ! 3)"
  by (simp_all add: getInvestmentDetails_def bangladeshInvestments_def)

subsection \<open>Recommended amount\<close>

lemma catalog_minInvestment_all:
  "list_all (\<lambda>x. case minInvestment x of Fin m \<Rightarrow> 0 < m | _ \<Rightarrow> False) bangladeshInvestments"
  by (simp add: bangladeshInvestments_def)

lemma catalog_minInvestment:
  assumes "x \<in> set bangladeshInvestments"
  obtains m where "0 < m" "minInvestment x = Fin m"
proof -
  from assms catalog_minInvestment_all
  have "case minInvestment x of Fin m \<Rightarrow> 0 < m | _ \<Rightarrow> False"
    by (simp add: list_all_iff)
  then show thesis using that by (cases "minInvestment x") simp_all
qed

lemma calculateRecommendedAmount_spec:
  "truthy (spec_percentage al x) \<Longrightarrow>
     calculateRecommendedAmount x av al =
       Math_max (av * spec_percentage al x / Fin 100) (minInvestment x)"
  by (cases "category x")
     (simp_all add: calculateRecommendedAmount_def spec_percentage_def or_else_def Let_def)

lemma allocation_finite:
  assumes "18 \<le> a" and "a \<le> 100"
  obtains s g b where
    "stocks (calculateAssetAllocation (Fin a) t) = Fin s" "0 \<le> s"
    "government (calculateAssetAllocation (Fin a) t) = Fin g" "0 \<le> g"
    "bank (calculateAssetAllocation (Fin a) t) = Fin b" "0 \<le> b"
  using assms by (cases t) (simp_all add: calculateAssetAllocation_def Let_def)

lemma or_else_nonneg:
  "0 \<le> b \<Longrightarrow> 0 \<le> d \<Longrightarrow> \<exists>p. 0 \<le> p \<and> or_else (Fin b) (Fin d) = Fin p"
  by (simp add: or_else_def)

lemma calculateRecommendedAmount_finite:
  assumes "stocks al = Fin s" "0 \<le> s" "government al = Fin g" "0 \<le> g" 
    "bank al = Fin b" "0 \<le> b" "minInvestment x = Fin m"
  obtains p where "0 \<le> p" 
    "calculateRecommendedAmount x (Fin v) al = Fin (max (v * p / 100) m)"
proof -
  have "\<exists>p. 0 \<le> p \<and>
    (case category x of
               Cat_government \<Rightarrow> or_else (government al) (Fin 20)
             | Cat_bank \<Rightarrow> or_else (bank al) (Fin 20)
             | Cat_stock \<Rightarrow> or_else (stocks al) (Fin 30)
             | Cat_mutual_fund \<Rightarrow> or_else (stocks al) (Fin 30)
             | _ \<Rightarrow> Fin 10) = Fin p"
    using assms(1-6) by (cases "category x") (simp_all add: or_else_nonneg)
  then obtain p where p: "0 \<le> p"
    "(case category x of
               Cat_government \<Rightarrow> or_else (government al) (Fin 20)
             | Cat_bank \<Rightarrow> or_else (bank al) (Fin 20)
             | Cat_stock \<Rightarrow> or_else (stocks al) (Fin 30)
             | Cat_mutual_fund \<Rightarrow> or_else (stocks al) (Fin 30)
             | _ \<Rightarrow> Fin 10) = Fin p" by blast
  have "calculateRecommendedAmount x (Fin v) al = Fin (max (v * p / 100) m)"
    by (simp add: calculateRecommendedAmount_def Let_def p(2) assms(7))
  with p(1) that show thesis by blast
qed

lemma recommended_amount_catalog:
  assumes "18 \<le> a" and "a \<le> 100" and "x \<in> set bangladeshInvestments"
  shows "minInvestment x \<le> calculateRecommendedAmount x (Fin v) (calculateAssetAllocation (Fin a) t)
     \<and> (v \<le> 0 \<longrightarrow> calculateRecommendedAmount x (Fin v) (calculateAssetAllocation (Fin a) t) = minInvestment x)"
proof -
  from assms(1,2) obtain s g b where al:
    "stocks (calculateAssetAllocation (Fin a) t) = Fin s" "0 \<le> s"
    "government (calculateAssetAllocation (Fin a) t) = Fin g" "0 \<le> g"
    "bank (calculateAssetAllocation (Fin a) t) = Fin b" "0 \<le> b"
    by (rule allocation_finite)
  from assms(3) obtain m where m: "0 < m" "minInvestment x = Fin m"
    by (rule catalog_minInvestment)
  from al m(2) obtain p where p: "0 \<le> p"
    "calculateRecommendedAmount x (Fin v) (calculateAssetAllocation (Fin a) t) = Fin (max (v * p / 100) m)"
    by (rule calculateRecommendedAmount_finite)
  have "v \<le> 0 \<Longrightarrow> v * p / 100 \<le> 0" using p(1) by (simp add: mult_nonpos_nonneg)
  with m p(2) show ?thesis by (auto simp: max_def)
qed

text \<open>
  Claim C2, as stated, takes the percentage to be the allocation bucket of the category.
  The code reads the bucket with a fallback (\<^verbatim>\<open>allocation.stocks || 30\<close>), which also
  replaces a bucket that is 0: for a moderate investor of 100 years the stock share is 0,
  and with 100000 available the mutual fund gets 30000 where the stated formula gives its
  minimum of 5000.
\<close>

theorem zero_bucket_takes_fallback:
  "calculateRecommendedAmount (bangladeshInvestments ! 3) (Fin 100000)
       (calculateAssetAllocation (Fin 100) MODERATE) = Fin 30000
   \<and> Math_max (Fin 100000
          * spec_percentage (calculateAssetAllocation (Fin 100) MODERATE) (bangladeshInvestments ! 3)
          / Fin 100) (minInvestment (bangladeshInvestments ! 3)) = Fin 5000"
  by (simp add: calculateRecommendedAmount_def spec_percentage_def calculateAssetAllocation_def
        bangladeshInvestments_def or_else_def truthy_def Let_def)

text \<open>
  Claim C2, amended: whenever the allocation bucket of the instrument's category is a
  non-zero number (or the category has no bucket, where the percentage is 10),
  \<^verbatim>\<open>calculateRecommendedAmount\<close> returns the larger of \<open>availableAmount * pct / 100\<close> and
  the instrument's minimum investment, \<open>pct\<close> being that bucket. Every recommendation
  returned by \<^verbatim>\<open>generateRecommendations\<close> carries an amount of at least the minimum
  investment of its instrument. For a user of 18 to 100 years with finite income and
  expenses, the amount computed for any instrument of the catalogue is at least its minimum
  investment, so the check that follows never skips one, and when the available amount is
  zero or negative every recommendation carries exactly the minimum investment.
\<close>

theorem recommended_amount_floor:
  "(truthy (spec_percentage al y) \<longrightarrow>
      calculateRecommendedAmount y av al =
        Math_max (av * spec_percentage al y / Fin 100) (minInvestment y))
   \<and> (\<forall>r \<in> set (generateRecommendations u fp ra).
         \<exists>x. getInvestmentDetails (investmentType r) = Some x
           \<and> minInvestment x \<le> recommendedAmount r)
   \<and> (age u = Fin a \<and> 18 \<le> a \<and> a \<le> 100
        \<and> monthlyIncome fp = Fin i \<and> monthlyExpenses fp = Fin e \<longrightarrow>
      (\<forall>x \<in> set bangladeshInvestments.
         minInvestment x \<le>
           calculateRecommendedAmount x (monthlyIncome fp - monthlyExpenses fp)
             (calculateAssetAllocation (age u) (tolerance ra)))
      \<and> (i \<le> e \<longrightarrow>
           (\<forall>r \<in> set (generateRecommendations u fp ra).
              \<exists>x. getInvestmentDetails (investmentType r) = Some x
                \<and> recommendedAmount r = minInvestment x)))"
proof (intro conjI ballI impI)
  assume "truthy (spec_percentage al y)"
  then show "calculateRecommendedAmount y av al =
              Math_max (av * spec_percentage al y / Fin 100) (minInvestment y)"
    by (rule calculateRecommendedAmount_spec)
next
  fix r assume "r \<in> set (generateRecommendations u fp ra)"
  then obtain x where x: "x \<in> set (filterByRiskTolerance bangladeshInvestments (tolerance ra))"
    and r: "investmentType r = type x"
      "recommendedAmount r =
         calculateRecommendedAmount x (monthlyIncome fp - monthlyExpenses fp)
           (calculateAssetAllocation (age u) (tolerance ra))"
    and m: "minInvestment x \<le>
         calculateRecommendedAmount x (monthlyIncome fp - monthlyExpenses fp)
           (calculateAssetAllocation (age u) (tolerance ra))"
    by (rule generateRecommendations_member) simp
  from x have "x \<in> set bangladeshInvestments" by (rule filterByRiskTolerance_subset)
  then have "getInvestmentDetails (investmentType r) = Some x"
    using r(1) by (simp add: getInvestmentDetails_catalog)
  with m r(2) show "\<exists>x. getInvestmentDetails (investmentType r) = Some x
      \<and> minInvestment x \<le> recommendedAmount r" by simp
next
  fix x
  assume d: "age u = Fin a \<and> 18 \<le> a \<and> a \<le> 100
        \<and> monthlyIncome fp = Fin i \<and> monthlyExpenses fp = Fin e"
    and "x \<in> set bangladeshInvestments"
  then show "minInvestment x \<le>
           calculateRecommendedAmount x (monthlyIncome fp - monthlyExpenses fp)
             (calculateAssetAllocation (age u) (tolerance ra))"
    using recommended_amount_catalog [of a x "i - e" "tolerance ra"] by simp
next
  fix r
  assume d: "age u = Fin a \<and> 18 \<le> a \<and> a \<le> 100
        \<and> monthlyIncome fp = Fin i \<and> monthlyExpenses fp = Fin e"
    and ie: "i \<le> e"
    and "r \<in> set (generateRecommendations u fp ra)"
  from this(3) obtain x where
    x: "x \<in> set (filterByRiskTolerance bangladeshInvestments (tolerance ra))"
    and r: "investmentType r = type x"
      "recommendedAmount r =
         calculateRecommendedAmount x (monthlyIncome fp - monthlyExpenses fp)
           (calculateAssetAllocation (age u) (tolerance ra))"
    by (rule generateRecommendations_member) simp
  from x have cat: "x \<in> set bangladeshInvestments" by (rule filterByRiskTolerance_subset)
  then have "getInvestmentDetails (investmentType r) = Some x"
    using r(1) by (simp add: getInvestmentDetails_catalog)
  moreover have "recommendedAmount r = minInvestment x"
    using recommended_amount_catalog [of a x "i - e" "tolerance ra"] d ie cat r(2) by simp
  ultimately show "\<exists>x. getInvestmentDetails (investmentType r) = Some x
      \<and> recommendedAmount r = minInvestment x" by simp
qed

theorem recommended_amount_floor_witness:
  "truthy (spec_percentage (calculateAssetAllocation (Fin 30) CONSERVATIVE)
             (bangladeshInvestments ! 0))
   \<and> calculateRecommendedAmount (bangladeshInvestments ! 0) (Fin 20000)
         (calculateAssetAllocation (Fin 30) CONSERVATIVE) = Fin 6000
   \<and> age mockUser = Fin 30 \<and> (18::real) \<le> 30 \<and> (30::real) \<le> 100
   \<and> monthlyIncome (mockProfile\<lparr>monthlyExpenses := Fin 60000\<rparr>) = Fin 50000
   \<and> monthlyExpenses (mockProfile\<lparr>monthlyExpenses := Fin 60000\<rparr>) = Fin 60000
   \<and> (50000::real) \<le> 60000
   \<and> bangladeshInvestments ! 0 \<in> set bangladeshInvestments
   \<and> \<lparr>rec_userId = ''mock_user_123'', investmentType = SANCHAYAPATRA,
       recommendedAmount = Fin 1000, rec_expectedReturn = Fin 8.5,
       rec_riskLevel = LOW, suitabilityScore = Fin 71\<rparr>
      \<in> set (generateRecommendations mockUser (mockProfile\<lparr>monthlyExpenses := Fin 60000\<rparr>)
                (mockAssessment CONSERVATIVE))
   \<and> getInvestmentDetails SANCHAYAPATRA = Some (bangladeshInvestments ! 0)
   \<and> minInvestment (bangladeshInvestments ! 0) = Fin 1000"
proof -
  have h: "age mockUser = Fin 30" "(18::real) \<le> 30" "(30::real) \<le> 100"
    "monthlyIncome (mockProfile\<lparr>monthlyExpenses := Fin 60000\<rparr>) = Fin 50000"
    "monthlyExpenses (mockProfile\<lparr>monthlyExpenses := Fin 60000\<rparr>) = Fin 60000"
    by (simp_all add: mock_defs)
  have t: "truthy (spec_percentage (calculateAssetAllocation (Fin 30) CONSERVATIVE)
                (bangladeshInvestments ! 0))"
    by (simp add: spec_percentage_def calculateAssetAllocation_def bangladeshInvestments_def
          truthy_def Let_def)
  note c = recommended_amount_floor
    [of "calculateAssetAllocation (Fin 30) CONSERVATIVE" "bangladeshInvestments ! 0"
        "Fin 20000" mockUser "mockProfile\<lparr>monthlyExpenses := Fin 60000\<rparr>"
        "mockAssessment CONSERVATIVE" 30 50000 60000]
  from c t have "calculateRecommendedAmount (bangladeshInvestments ! 0) (Fin 20000)
         (calculateAssetAllocation (Fin 30) CONSERVATIVE) =
        Math_max (Fin 20000 * spec_percentage (calculateAssetAllocation (Fin 30) CONSERVATIVE)
                (bangladeshInvestments ! 0) / Fin 100) (minInvestment (bangladeshInvestments ! 0))"
    by blast
  then have "calculateRecommendedAmount (bangladeshInvestments ! 0) (Fin 20000)
         (calculateAssetAllocation (Fin 30) CONSERVATIVE) = Fin 6000"
    by (simp add: spec_percentage_def calculateAssetAllocation_def bangladeshInvestments_def Let_def)
  with h t show ?thesis
    by (simp add: mock_overspent getInvestmentDetails_values) (simp add: bangladeshInvestments_def)
qed

subsection \<open>Risk filter\<close>

text \<open>
  Claim C5: the catalogue is filtered by risk tolerance before anything is scored. Every
  recommendation returned for a conservative investor is for a low-risk instrument, every
  one returned for a moderate investor for a low- or medium-risk instrument, whatever the
  scores; for an aggressive investor the candidates are the whole catalogue.
\<close>

theorem recommendations_respect_risk_filter:
  "(tolerance ra = CONSERVATIVE \<longrightarrow>
      (\<forall>r \<in> set (generateRecommendations u fp ra).
         rec_riskLevel r = LOW
         \<and> (\<exists>x. getInvestmentDetails (investmentType r) = Some x \<and> riskLevel x = LOW)))
   \<and> (tolerance ra = MODERATE \<longrightarrow>
      (\<forall>r \<in> set (generateRecommendations u fp ra).
         (rec_riskLevel r = LOW \<or> rec_riskLevel r = MEDIUM)
         \<and> (\<exists>x. getInvestmentDetails (investmentType r) = Some x
               \<and> (riskLevel x = LOW \<or> riskLevel x = MEDIUM))))
   \<and> filterByRiskTolerance bangladeshInvestments AGGRESSIVE = bangladeshInvestments"
proof (intro conjI impI ballI)
  fix r assume t: "tolerance ra = CONSERVATIVE" and "r \<in> set (generateRecommendations u fp ra)"
  from this(2) obtain x where x: "x \<in> set (filterByRiskTolerance bangladeshInvestments (tolerance ra))"
    "getInvestmentDetails (investmentType r) = Some x" "rec_riskLevel r = riskLevel x"
    by (rule recommendation_origin)
  from filterByRiskTolerance_level [OF x(1)] t have l: "riskLevel x = LOW" by simp
  with x show "rec_riskLevel r = LOW" by simp
  from l x show "\<exists>x. getInvestmentDetails (investmentType r) = Some x \<and> riskLevel x = LOW" by simp
next
  fix r assume t: "tolerance ra = MODERATE" and "r \<in> set (generateRecommendations u fp ra)"
  from this(2) obtain x where x: "x \<in> set (filterByRiskTolerance bangladeshInvestments (tolerance ra))"
    "getInvestmentDetails (investmentType r) = Some x" "rec_riskLevel r = riskLevel x"
    by (rule recommendation_origin)
  from filterByRiskTolerance_level [OF x(1)] t have l: "riskLevel x = LOW \<or> riskLevel x = MEDIUM" by simp
  with x show "rec_riskLevel r = LOW \<or> rec_riskLevel r = MEDIUM" by simp
  from l x show "\<exists>x. getInvestmentDetails (investmentType r) = Some x \<and> (riskLevel x = LOW \<or> riskLevel x = MEDIUM)" by simp
next
  show "filterByRiskTolerance bangladeshInvestments AGGRESSIVE = bangladeshInvestments"
    by (simp add: filterByRiskTolerance_def)
qed

theorem recommendations_respect_risk_filter_witness:
  "tolerance (mockAssessment CONSERVATIVE) = CONSERVATIVE
   \<and> tolerance (mockAssessment MODERATE) = MODERATE
   \<and> \<lparr>rec_userId = ''mock_user_123'', investmentType = SANCHAYAPATRA,
       recommendedAmount = Fin 6000, rec_expectedReturn = Fin 8.5,
       rec_riskLevel = LOW, suitabilityScore = Fin 85\<rparr>
      \<in> set (generateRecommendations mockUser mockProfile (mockAssessment CONSERVATIVE))
   \<and> \<lparr>rec_userId = ''mock_user_123'', investmentType = MUTUAL_FUND,
       recommendedAmount = Fin 14000, rec_expectedReturn = Fin 12.3,
       rec_riskLevel = MEDIUM, suitabilityScore = Fin 90\<rparr>
      \<in> set (generateRecommendations mockUser mockProfile (mockAssessment MODERATE))
   \<and> getInvestmentDetails SANCHAYAPATRA = Some (bangladeshInvestments ! 0)
   \<and> riskLevel (bangladeshInvestments ! 0) = LOW
   \<and> getInvestmentDetails MUTUAL_FUND = Some (bangladeshInvestments ! 3)
   \<and> riskLevel (bangladeshInvestments ! 3) = MEDIUM
   \<and> filterByRiskTolerance bangladeshInvestments AGGRESSIVE = bangladeshInvestments"
  using recommendations_respect_risk_filter [of "mockAssessment CONSERVATIVE" mockUser mockProfile]
    recommendations_respect_risk_filter [of "mockAssessment MODERATE" mockUser mockProfile]
  by (simp add: mock_conservative mock_moderate getInvestmentDetails_values)
     (simp add: mockAssessment_def bangladeshInvestments_def)

subsection \<open>Score threshold\<close>

text \<open>
  Claim C6: every recommendation returned has a suitability score of at least 60, and no
  recommendation is returned for an instrument of the catalogue that scores below 60.
\<close>

theorem recommendations_score_at_least_60:
  "(\<forall>r \<in> set (generateRecommendations u fp ra). Fin 60 \<le> suitabilityScore r)
   \<and> (\<forall>x \<in> set bangladeshInvestments.
         calculateSuitabilityScore x u fp ra < Fin 60 \<longrightarrow>
           (\<forall>r \<in> set (generateRecommendations u fp ra). investmentType r \<noteq> type x))"
proof (intro conjI ballI impI)
  fix r assume "r \<in> set (generateRecommendations u fp ra)"
  then have "integer_between 60 100 (suitabilityScore r)" by (rule generateRecommendations_score)
  then show "Fin 60 \<le> suitabilityScore r" by (rule integer_between_FinE) simp
next
  fix x r
  assume x: "x \<in> set bangladeshInvestments"
    and low: "calculateSuitabilityScore x u fp ra < Fin 60"
    and rin: "r \<in> set (generateRecommendations u fp ra)"
  from rin obtain y where y: "y \<in> set (filterByRiskTolerance bangladeshInvestments (tolerance ra))"
    and s: "Fin 60 \<le> calculateSuitabilityScore y u fp ra" and r: "investmentType r = type y"
    by (rule generateRecommendations_member) simp
  from y have ycat: "y \<in> set bangladeshInvestments" by (rule filterByRiskTolerance_subset)
  show "investmentType r \<noteq> type x"
  proof
    assume "investmentType r = type x"
    with r have "type y = type x" by simp
    with x ycat have "y = x" by (rule type_eq)
    obtain k where k: "calculateSuitabilityScore x u fp ra = Fin (of_int k)"
      using calculateSuitabilityScore_range [of x u fp ra] by (rule integer_between_FinE)
    from s low k \<open>y = x\<close> show False by simp
  qed
qed

theorem recommendations_score_at_least_60_witness:
  "bangladeshInvestments ! 0 \<in> set bangladeshInvestments
   \<and> calculateSuitabilityScore (bangladeshInvestments ! 0) mockUser
        (mockProfile\<lparr>monthlyExpenses := Fin 48000, currentSavings := Fin 50000,
           dependents := Fin 3\<rparr>)
        (mockAssessment AGGRESSIVE) < Fin 60
   \<and> \<lparr>rec_userId = ''mock_user_123'', investmentType = MUTUAL_FUND,
       recommendedAmount = Fin 5000, rec_expectedReturn = Fin 12.3,
       rec_riskLevel = MEDIUM, suitabilityScore = Fin 67\<rparr>
      \<in> set (generateRecommendations mockUser
           (mockProfile\<lparr>monthlyExpenses := Fin 48000, currentSavings := Fin 50000,
              dependents := Fin 3\<rparr>)
           (mockAssessment AGGRESSIVE))
   \<and> Fin 60 \<le> Fin 67
   \<and> MUTUAL_FUND \<noteq> type (bangladeshInvestments ! 0)"
  using recommendations_score_at_least_60 [of mockUser "mockProfile\<lparr>monthlyExpenses := Fin 48000, currentSavings := Fin 50000,
           dependents := Fin 3\<rparr>" "mockAssessment AGGRESSIVE"]
  by (simp add: mock_aggressive)
     (simp add: mock_defs score_defs bangladeshInvestments_def strict_eq_def)

subsection \<open>Order of the result\<close>

lemma insert_by_sorted:
  assumes "\<forall>z \<in> set (x # ys). key z = Fin (f z)"
    and "sorted_wrt (\<lambda>a b. f b \<le> f a) ys"
  shows "sorted_wrt (\<lambda>a b. f b \<le> f a) (insert_by (\<lambda>a b. key b - key a) x ys)"
  using assms
proof (induction ys)
  case Nil
  then show ?case by simp
next
  case (Cons y ys)
  then show ?case by (auto simp: less_number_def)
qed

lemma Array_sort_sorted:
  assumes "\<forall>z \<in> set xs. key z = Fin (f z)"
  shows "sorted_wrt (\<lambda>a b. f b \<le> f a) (Array_sort (\<lambda>a b. key b - key a) xs)"
  using assms unfolding Array_sort_def
proof (induction xs)
  case Nil
  then show ?case by simp
next
  case (Cons x xs)
  have "set (foldr (insert_by (\<lambda>a b. key b - key a)) xs []) = set xs"
    using set_Array_sort [of "\<lambda>a b. key b - key a" xs] by (simp add: Array_sort_def)
  with Cons show ?case by (simp add: insert_by_sorted)
qed

lemma sorted_wrt_key:
  assumes "sorted_wrt (\<lambda>a b. f b \<le> f a) xs" and "\<forall>z \<in> set xs. key z = Fin (f z)"
  shows "sorted_wrt (\<lambda>a b. (key b :: number) \<le> key a) xs"
  using assms by (induction xs) auto

text \<open>
  Claim C9: the list returned by \<^verbatim>\<open>generateRecommendations\<close> is in descending order of
  suitability score: every recommendation scores at least as much as each one after it, its
  successor included.
\<close>

theorem recommendations_sorted_descending:
  "sorted_wrt (\<lambda>a b. suitabilityScore b \<le> suitabilityScore a)
     (generateRecommendations u fp ra)"
proof -
  let ?f = "\<lambda>r. case suitabilityScore r of Fin x \<Rightarrow> x | _ \<Rightarrow> 0"
  have fin: "\<forall>r \<in> set (generateRecommendations u fp ra). suitabilityScore r = Fin (?f r)"
  proof
    fix r assume "r \<in> set (generateRecommendations u fp ra)"
    then have "integer_between 60 100 (suitabilityScore r)"
      by (rule generateRecommendations_score)
    then show "suitabilityScore r = Fin (?f r)" by (rule integer_between_FinE) simp
  qed
  then have fin': "\<forall>r \<in> set (foldl (recommend u fp ra (monthlyIncome fp - monthlyExpenses fp)
              (calculateAssetAllocation (age u) (tolerance ra))) []
              (filterByRiskTolerance bangladeshInvestments (tolerance ra))).
            suitabilityScore r = Fin (?f r)"
    by (simp add: generateRecommendations_def Let_def)
  have "sorted_wrt (\<lambda>a b. ?f b \<le> ?f a) (generateRecommendations u fp ra)"
    unfolding generateRecommendations_def Let_def
    by (rule Array_sort_sorted [OF fin'])
  then show ?thesis using fin by (rule sorted_wrt_key)
qed

section \<open>Rounding to binary64\<close>

text \<open>
  The search for the quantum is unfolded by hand, one step at a time.
\<close>

declare expo_down.simps [simp del] expo_up.simps [simp del]

lemma pow2_pos [simp]: "0 < pow2 q"
  by (simp add: pow2_def)

lemma pow2_nonzero [simp]: "pow2 q \<noteq> 0"
  by (simp add: pow2_def)

lemma pow2_abs [simp]: "\<bar>pow2 q\<bar> = pow2 q"
  by (simp add: pow2_def)

lemma expo_down_step:
  "y < 2 ^ 52 \<Longrightarrow> - 1074 < q \<Longrightarrow> expo_down y q = expo_down (y * 2) (q - 1)"
  by (subst expo_down.simps) auto

lemma expo_down_stop: "\<not> (y < 2 ^ 52 \<and> - 1074 < q) \<Longrightarrow> expo_down y q = q"
  by (subst expo_down.simps) auto





lemma expo_down_eq:
  "2 ^ 52 \<le> y * 2 ^ k \<Longrightarrow> y * 2 ^ k < 2 ^ 53 \<Longrightarrow> int k \<le> q + 1074 \<Longrightarrow>
     expo_down y q = q - int k"
proof (induction k arbitrary: y q)
  case 0
  then have "\<not> (y < 2 ^ 52 \<and> - 1074 < q)" by simp
  then have "expo_down y q = q" by (rule expo_down_stop)
  then show ?case by simp
next
  case (Suc k)
  have pos: "0 < y"
  proof (rule ccontr)
    assume "\<not> 0 < y"
    then have "y * 2 ^ Suc k \<le> 0" by (simp add: mult_le_0_iff)
    with Suc.prems(1) show False by simp
  qed
  have "(1::real) \<le> 2 ^ k" by simp
  with pos have "y * 2 * 1 \<le> y * 2 * 2 ^ k" by (intro mult_left_mono) simp_all
  with Suc.prems(2) have "y * 2 < 2 ^ 53" by (simp add: mult.assoc)
  then have y: "y < 2 ^ 52" by simp
  have q: "- 1074 < q" using Suc.prems(3) by simp
  have "expo_down (y * 2) (q - 1) = q - 1 - int k"
    using Suc.prems by (intro Suc.IH) (simp_all add: mult.assoc)
  moreover from y q have "expo_down y q = expo_down (y * 2) (q - 1)" by (rule expo_down_step)
  ultimately show ?case by simp
qed

lemma round_half_even_close: "\<bar>of_int (round_half_even r) - r\<bar> \<le> 1 / 2"
  unfolding round_half_even_def Let_def by (auto; linarith)



lemma pow2_neg: "pow2 (- int k) = 1 / 2 ^ k"
  by (cases "k = 0") (simp_all add: pow2_def)

lemma round64_down:
  assumes lo: "2 ^ 52 \<le> \<bar>r\<bar> * 2 ^ k" and hi: "\<bar>r\<bar> * 2 ^ k < 2 ^ 53" and k: "k \<le> 1074"
  shows "round64 (Fin r) = Fin (of_int (round_half_even (r * 2 ^ k)) / 2 ^ k)"
proof -
  have r: "r \<noteq> 0" using lo by auto
  have "\<bar>r\<bar> * 1 \<le> \<bar>r\<bar> * 2 ^ k" by (intro mult_left_mono) simp_all
  with hi have small: "\<not> 2 ^ 53 \<le> \<bar>r\<bar>" by simp
  have "expo_down \<bar>r\<bar> 0 = 0 - int k"
    using lo hi k by (intro expo_down_eq) simp_all
  with small have q: "quantum r = - int k" by (simp add: quantum_def)
  let ?n = "round_half_even (r * 2 ^ k)"
  have "\<bar>of_int ?n - r * 2 ^ k\<bar> \<le> 1 / 2" by (rule round_half_even_close)
  then have "\<bar>real_of_int ?n\<bar> \<le> \<bar>r * 2 ^ k\<bar> + 1 / 2" by linarith
  also have "\<bar>r * 2 ^ k\<bar> = \<bar>r\<bar> * 2 ^ k" by (simp add: abs_mult)
  finally have n: "\<bar>real_of_int ?n\<bar> < 2 ^ 53 + 1" using hi by linarith
  have "\<bar>real_of_int ?n / 2 ^ k\<bar> = \<bar>real_of_int ?n\<bar> / 2 ^ k" by simp
  also have "\<dots> \<le> \<bar>real_of_int ?n\<bar> / 1"
    by (intro divide_left_mono) simp_all
  finally have "\<bar>real_of_int ?n / 2 ^ k\<bar> < 2 ^ 53 + 1" using n by simp
  moreover have "(2::real) ^ 53 + 1 \<le> 2 ^ 1024" by simp
  ultimately have fin: "\<not> 2 ^ 1024 \<le> \<bar>real_of_int ?n / 2 ^ k\<bar>" by linarith
  show ?thesis
    using r fin by (simp add: round64_def q pow2_neg Let_def)
qed






section \<open>Projection against the recurrence\<close>

lemma times_number_commute: "a * b = b * (a::number)"
  by (cases a; cases b) (simp_all add: times_number_def mult.commute)

lemma mul64_commute: "mul64 a b = mul64 b a"
  by (simp add: mul64_def times_number_commute [of a b])

lemma projectionLoop_done:
  "years < year \<Longrightarrow> projectionLoop r m years year s = s"
  by (cases s) (simp add: projectionLoop.simps)

lemma projectionLoop_step:
  "year \<le> years \<Longrightarrow>
     projectionLoop r m years year (ti, cv, bd) =
       projectionLoop r m years (year + 1)
         (add64 ti (mul64 m (Fin 12)),
          mul64 (add64 cv (mul64 m (Fin 12))) (add64 (Fin 1) (div64 r (Fin 100))),
          bd @ [\<lparr>entry_year = year,
                  entry_investment = add64 ti (mul64 m (Fin 12)),
                  entry_value =
                    Math_round
                      (mul64 (add64 cv (mul64 m (Fin 12))) (add64 (Fin 1) (div64 r (Fin 100)))),
                  entry_return =
                    Math_round
                      (sub64
                         (mul64 (add64 cv (mul64 m (Fin 12)))
                            (add64 (Fin 1) (div64 r (Fin 100))))
                         (add64 ti (mul64 m (Fin 12))))\<rparr>])"
  by (subst projectionLoop.simps) (simp add: Let_def)

lemma projectionLoop_spec:
  "k \<le> n \<Longrightarrow>
     projectionLoop r m (int n) (int k + 1)
       (spec_totalInvestment a m k, spec_currentValue a r m k, bd) =
     (spec_totalInvestment a m n, spec_currentValue a r m n,
      bd @ map (spec_entry a r m) [Suc k..<Suc n])"
proof (induction "n - k" arbitrary: k bd)
  case 0
  then have "k = n" by simp
  then show ?case by (simp add: projectionLoop_done)
next
  case (Suc d)
  then have lt: "k < n" and d: "d = n - Suc k" and le: "Suc k \<le> n" by simp_all
  have step: "projectionLoop r m (int n) (int k + 1)
       (spec_totalInvestment a m k, spec_currentValue a r m k, bd) =
     projectionLoop r m (int n) (int (Suc k) + 1)
       (spec_totalInvestment a m (Suc k), spec_currentValue a r m (Suc k),
        bd @ [spec_entry a r m (Suc k)])"
    using lt
    by (subst projectionLoop_step)
       (simp_all add: spec_entry_def mul64_commute [of m "Fin 12"] add.commute)
  have "[Suc k..<Suc n] = Suc k # [Suc (Suc k)..<Suc n]"
    using lt by (simp add: upt_conv_Cons)
  then show ?case
    using Suc.hyps(1) [OF d le, of "bd @ [spec_entry a r m (Suc k)]"] step by simp
qed

lemma projectionLoop_nat:
  "projectionLoop r m years 1 s = projectionLoop r m (int (nat years)) 1 s"
proof (cases "0 \<le> years")
  case True
  then show ?thesis by simp
next
  case False
  then show ?thesis by (simp add: projectionLoop_done)
qed

lemma calculateProjection_spec:
  "calculateProjection a r years m =
     \<lparr>futureValue = Math_round (spec_currentValue a r m (nat years)),
      totalInvestment = spec_totalInvestment a m (nat years),
      totalReturn =
        Math_round
          (sub64 (spec_currentValue a r m (nat years)) (spec_totalInvestment a m (nat years))),
      yearlyBreakdown = spec_breakdown a r (nat years) m\<rparr>"
proof -
  have "projectionLoop r m years 1 (a, a, []) =
      (spec_totalInvestment a m (nat years), spec_currentValue a r m (nat years),
       map (spec_entry a r m) [Suc 0..<Suc (nat years)])"
    using projectionLoop_spec [of 0 "nat years" r m a "[]"]
    by (subst projectionLoop_nat) simp
  then show ?thesis by (simp add: calculateProjection_def spec_breakdown_def)
qed

subsection \<open>The scenario of the specification\<close>

text \<open>
  \<^verbatim>\<open>calculateProjection(100000, 8.5, 5, 0)\<close>, operation by operation: the exact result of
  each and the number it rounds to.
\<close>

lemma scenario_yc:
  "mul64 (Fin 12) (Fin 0) = Fin 0"
  by (simp add: mul64_def round64_def)

lemma scenario_rate:
  "div64 (Fin (17 / 2)) (Fin 100) = Fin (6124895493223875 / 72057594037927936)"
  by (simp add: div64_def round64_down [where k = 56] round_half_even_def)

lemma scenario_growth_sum:
  "add64 (Fin 1) (Fin (6124895493223875 / 72057594037927936)) = Fin (1221601398924247 / 1125899906842624)"
  by (simp add: add64_def round64_down [where k = 52] round_half_even_def)

lemma scenario_growth:
  "add64 (Fin 1) (div64 (Fin (17 / 2)) (Fin 100)) = Fin (1221601398924247 / 1125899906842624)"
  by (simp only: scenario_rate scenario_growth_sum)

lemma scenario_invested_sum_1:
  "add64 (Fin 100000) (Fin 0) = Fin 100000"
  by (simp add: add64_def round64_down [where k = 36] round_half_even_def)

lemma scenario_invested_1:
  "spec_totalInvestment (Fin 100000) (Fin 0) (Suc 0) = Fin 100000"
  by (simp only: spec_totalInvestment.simps scenario_yc scenario_invested_sum_1)

lemma scenario_value_sum_1:
  "add64 (Fin 100000) (Fin 0) = Fin 100000"
  by (simp add: add64_def round64_down [where k = 36] round_half_even_def)

lemma scenario_value_product_1:
  "mul64 (Fin 100000) (Fin (1221601398924247 / 1125899906842624)) = Fin 108500"
  by (simp add: mul64_def round64_down [where k = 36] round_half_even_def)

lemma scenario_value_1:
  "spec_currentValue (Fin 100000) (Fin (17 / 2)) (Fin 0) (Suc 0) = Fin 108500"
  by (simp only: spec_currentValue.simps scenario_yc scenario_growth scenario_value_sum_1 scenario_value_product_1)

lemma scenario_invested_sum_2:
  "add64 (Fin 100000) (Fin 0) = Fin 100000"
  by (simp add: add64_def round64_down [where k = 36] round_half_even_def)

lemma scenario_invested_2:
  "spec_totalInvestment (Fin 100000) (Fin 0) (Suc (Suc 0)) = Fin 100000"
  by (subst spec_totalInvestment.simps(2)) (simp only: scenario_invested_1 scenario_yc scenario_invested_sum_2)

lemma scenario_invested_sum_3:
  "add64 (Fin 100000) (Fin 0) = Fin 100000"
  by (simp add: add64_def round64_down [where k = 36] round_half_even_def)

lemma scenario_invested_3:
  "spec_totalInvestment (Fin 100000) (Fin 0) (Suc (Suc (Suc 0))) = Fin 100000"
  by (subst spec_totalInvestment.simps(2)) (simp only: scenario_invested_2 scenario_yc scenario_invested_sum_3)

lemma scenario_invested_sum_4:
  "add64 (Fin 100000) (Fin 0) = Fin 100000"
  by (simp add: add64_def round64_down [where k = 36] round_half_even_def)

lemma scenario_invested_4:
  "spec_totalInvestment (Fin 100000) (Fin 0) (Suc (Suc (Suc (Suc 0)))) = Fin 100000"
  by (subst spec_totalInvestment.simps(2)) (simp only: scenario_invested_3 scenario_yc scenario_invested_sum_4)

lemma scenario_invested_sum_5:
  "add64 (Fin 100000) (Fin 0) = Fin 100000"
  by (simp add: add64_def round64_down [where k = 36] round_half_even_def)

lemma scenario_invested_5:
  "spec_totalInvestment (Fin 100000) (Fin 0) (Suc (Suc (Suc (Suc (Suc 0))))) = Fin 100000"
  by (subst spec_totalInvestment.simps(2)) (simp only: scenario_invested_4 scenario_yc scenario_invested_sum_5)

lemma scenario_breakdown:
  "entry_value (yearlyBreakdown (calculateProjection (Fin 100000) (Fin 8.5) 5 (Fin 0)) ! 0) =
     Fin 108500"
  "map entry_investment
     (yearlyBreakdown (calculateProjection (Fin 100000) (Fin 8.5) 5 (Fin 0))) =
   replicate 5 (Fin 100000)"
  by (simp_all add: calculateProjection_spec spec_breakdown_def spec_entry_def
        eval_nat_numeral scenario_invested_1 scenario_invested_2 scenario_invested_3
        scenario_invested_4 scenario_invested_5 scenario_value_1
        del: spec_totalInvestment.simps spec_currentValue.simps)

text \<open>
  Claim C3, as stated, has \<^verbatim>\<open>futureValue\<close> equal to the initial amount when \<^verbatim>\<open>years\<close> is
  0. The function rounds the current value on return, so an amount of 1000.5 comes back as
  1001.
\<close>

theorem zero_years_rounds_amount:
  "futureValue (calculateProjection (Fin 1000.5) (Fin 8.5) 0 (Fin 0)) = Fin 1001
   \<and> Fin 1001 \<noteq> Fin 1000.5"
  by (simp add: calculateProjection_def projectionLoop.simps)

text \<open>
  Claim C3, amended: \<^verbatim>\<open>calculateProjection\<close> follows the recurrence of the specification:
  starting from the amount as invested total and current value, each year from 1 to
  \<^verbatim>\<open>years\<close> adds 12 monthly contributions to the invested total, sets the current value
  to (current value + yearly contribution) * (1 + annualReturn / 100), and records the
  year, the invested total, the rounded value and the rounded difference of the two. The
  breakdown has exactly \<^verbatim>\<open>years\<close> entries. With \<^verbatim>\<open>years = 0\<close> the breakdown is empty and
  \<^verbatim>\<open>futureValue\<close> is the initial amount rounded to the nearest integer, which is the
  initial amount when that is an integer. \<^verbatim>\<open>calculateProjection(100000, 8.5, 5, 0)\<close> has a
  value of 108500 in year 1 and an invested total of 100000 in every year.
\<close>

theorem projection_follows_recurrence:
  "yearlyBreakdown (calculateProjection amount annualReturn (int years) monthlyContribution) =
     spec_breakdown amount annualReturn years monthlyContribution
   \<and> totalInvestment (calculateProjection amount annualReturn (int years) monthlyContribution) =
     spec_totalInvestment amount monthlyContribution years
   \<and> length (yearlyBreakdown
        (calculateProjection amount annualReturn (int years) monthlyContribution)) = years
   \<and> yearlyBreakdown (calculateProjection amount annualReturn 0 monthlyContribution) = []
   \<and> futureValue (calculateProjection amount annualReturn 0 monthlyContribution) =
     Math_round amount
   \<and> futureValue (calculateProjection (Fin (of_int z)) annualReturn 0 monthlyContribution) =
     Fin (of_int z)
   \<and> entry_value (yearlyBreakdown (calculateProjection (Fin 100000) (Fin 8.5) 5 (Fin 0)) ! 0) =
     Fin 108500
   \<and> map entry_investment
       (yearlyBreakdown (calculateProjection (Fin 100000) (Fin 8.5) 5 (Fin 0))) =
     replicate 5 (Fin 100000)"
proof -
  have general:
    "yearlyBreakdown (calculateProjection amount annualReturn (int years) monthlyContribution) =
       spec_breakdown amount annualReturn years monthlyContribution"
    "totalInvestment (calculateProjection amount annualReturn (int years) monthlyContribution) =
       spec_totalInvestment amount monthlyContribution years"
    "length (yearlyBreakdown
        (calculateProjection amount annualReturn (int years) monthlyContribution)) = years"
    by (simp_all add: calculateProjection_spec spec_breakdown_def)
  have zero:
    "yearlyBreakdown (calculateProjection amount annualReturn 0 monthlyContribution) = []"
    "futureValue (calculateProjection amount annualReturn 0 monthlyContribution) =
       Math_round amount"
    "futureValue (calculateProjection (Fin (of_int z)) annualReturn 0 monthlyContribution) =
       Fin (of_int z)"
    by (simp_all add: calculateProjection_spec spec_breakdown_def)
  note scenario = scenario_breakdown
  from general zero scenario show ?thesis by (intro conjI)
qed

subsection \<open>Rounding of the return\<close>


















text \<open>
  The same at a rate of the catalogue, with withdrawals:
  \<^verbatim>\<open>calculateProjection(18672, 15.8, 2, -806)\<close>. The literal \<^verbatim>\<open>15.8\<close> denotes the nearest
  number of the format.
\<close>

lemma catalogue_rate:
  "round64 (Fin 15.8) = Fin (4447304632028365 / 281474976710656)"
  by (simp add: round64_down [where k = 49] round_half_even_def)

lemma withdrawal_yc:
  "mul64 (Fin 12) (Fin (- 806)) = Fin (- 9672)"
  by (simp add: mul64_def round64_down [where k = 39] round_half_even_def)

lemma withdrawal_rate:
  "div64 (Fin (4447304632028365 / 281474976710656)) (Fin 100) = Fin (5692549928996307 / 36028797018963968)"
  by (simp add: div64_def round64_down [where k = 55] round_half_even_def)

lemma withdrawal_growth_sum:
  "add64 (Fin 1) (Fin (5692549928996307 / 36028797018963968)) = Fin (2607584184247517 / 2251799813685248)"
  by (simp add: add64_def round64_down [where k = 52] round_half_even_def)

lemma withdrawal_growth:
  "add64 (Fin 1) (div64 (Fin (4447304632028365 / 281474976710656)) (Fin 100)) = Fin (2607584184247517 / 2251799813685248)"
  by (simp only: withdrawal_rate withdrawal_growth_sum)

lemma withdrawal_invested_sum_1:
  "add64 (Fin 18672) (Fin (- 9672)) = Fin 9000"
  by (simp add: add64_def round64_down [where k = 39] round_half_even_def)

lemma withdrawal_invested_1:
  "spec_totalInvestment (Fin 18672) (Fin (- 806)) (Suc 0) = Fin 9000"
  by (simp only: spec_totalInvestment.simps withdrawal_yc withdrawal_invested_sum_1)

lemma withdrawal_value_sum_1:
  "add64 (Fin 18672) (Fin (- 9672)) = Fin 9000"
  by (simp add: add64_def round64_down [where k = 39] round_half_even_def)

lemma withdrawal_value_product_1:
  "mul64 (Fin 9000) (Fin (2607584184247517 / 2251799813685248)) = Fin 10422"
  by (simp add: mul64_def round64_down [where k = 39] round_half_even_def)

lemma withdrawal_value_1:
  "spec_currentValue (Fin 18672) (Fin (4447304632028365 / 281474976710656)) (Fin (- 806)) (Suc 0) = Fin 10422"
  by (simp only: spec_currentValue.simps withdrawal_yc withdrawal_growth withdrawal_value_sum_1 withdrawal_value_product_1)

lemma withdrawal_return_1:
  "sub64 (Fin 10422) (Fin 9000) = Fin 1422"
  by (simp add: sub64_def round64_down [where k = 42] round_half_even_def)

lemma withdrawal_invested_sum_2:
  "add64 (Fin 9000) (Fin (- 9672)) = Fin (- 672)"
  by (simp add: add64_def round64_down [where k = 43] round_half_even_def)

lemma withdrawal_invested_2:
  "spec_totalInvestment (Fin 18672) (Fin (- 806)) (Suc (Suc 0)) = Fin (- 672)"
  by (subst spec_totalInvestment.simps(2)) (simp only: withdrawal_invested_1 withdrawal_yc withdrawal_invested_sum_2)

lemma withdrawal_value_sum_2:
  "add64 (Fin 10422) (Fin (- 9672)) = Fin 750"
  by (simp add: add64_def round64_down [where k = 43] round_half_even_def)

lemma withdrawal_value_product_2:
  "mul64 (Fin 750) (Fin (2607584184247517 / 2251799813685248)) = Fin (7639406789787647 / 8796093022208)"
  by (simp add: mul64_def round64_down [where k = 43] round_half_even_def)

lemma withdrawal_value_2:
  "spec_currentValue (Fin 18672) (Fin (4447304632028365 / 281474976710656)) (Fin (- 806)) (Suc (Suc 0)) = Fin (7639406789787647 / 8796093022208)"
  by (subst spec_currentValue.simps(2)) (simp only: withdrawal_value_1 withdrawal_yc withdrawal_growth withdrawal_value_sum_2 withdrawal_value_product_2)

lemma withdrawal_return_2:
  "sub64 (Fin (7639406789787647 / 8796093022208)) (Fin (- 672)) = Fin (3081 / 2)"
  by (simp add: sub64_def round64_down [where k = 42] round_half_even_def)


lemma withdrawal_projection:
  "calculateProjection (Fin 18672) (round64 (Fin 15.8)) 2 (Fin (- 806)) =
     \<lparr>futureValue = Fin 868, totalInvestment = Fin (- 672), totalReturn = Fin 1541,
      yearlyBreakdown =
        [\<lparr>entry_year = 1, entry_investment = Fin 9000, entry_value = Fin 10422,
           entry_return = Fin 1422\<rparr>,
         \<lparr>entry_year = 2, entry_investment = Fin (- 672), entry_value = Fin 868,
           entry_return = Fin 1541\<rparr>]\<rparr>"
  unfolding catalogue_rate
  by (simp add: calculateProjection_spec spec_breakdown_def spec_entry_def
        eval_nat_numeral withdrawal_invested_1 withdrawal_invested_2 withdrawal_value_1
        withdrawal_value_2 withdrawal_return_1 withdrawal_return_2
        del: spec_totalInvestment.simps spec_currentValue.simps)

text \<open>
  One year at the same rate without contributions, \<^verbatim>\<open>calculateProjection(11250, 15.8, 1, 0)\<close>:
  the product \<open>11250 * 1.158\<close> is 13027.5 in the reals and rounds to a number just below
  it.
\<close>

lemma deposit_yc:
  "mul64 (Fin 12) (Fin 0) = Fin 0"
  by (simp add: mul64_def round64_def)

lemma deposit_rate:
  "div64 (Fin (4447304632028365 / 281474976710656)) (Fin 100) = Fin (5692549928996307 / 36028797018963968)"
  by (simp add: div64_def round64_down [where k = 55] round_half_even_def)

lemma deposit_growth_sum:
  "add64 (Fin 1) (Fin (5692549928996307 / 36028797018963968)) = Fin (2607584184247517 / 2251799813685248)"
  by (simp add: add64_def round64_down [where k = 52] round_half_even_def)

lemma deposit_growth:
  "add64 (Fin 1) (div64 (Fin (4447304632028365 / 281474976710656)) (Fin 100)) = Fin (2607584184247517 / 2251799813685248)"
  by (simp only: deposit_rate deposit_growth_sum)

lemma deposit_invested_sum_1:
  "add64 (Fin 11250) (Fin 0) = Fin 11250"
  by (simp add: add64_def round64_down [where k = 39] round_half_even_def)

lemma deposit_invested_1:
  "spec_totalInvestment (Fin 11250) (Fin 0) (Suc 0) = Fin 11250"
  by (simp only: spec_totalInvestment.simps deposit_yc deposit_invested_sum_1)

lemma deposit_value_sum_1:
  "add64 (Fin 11250) (Fin 0) = Fin 11250"
  by (simp add: add64_def round64_down [where k = 39] round_half_even_def)

lemma deposit_value_product_1:
  "mul64 (Fin 11250) (Fin (2607584184247517 / 2251799813685248)) = Fin (7161943865425919 / 549755813888)"
  by (simp add: mul64_def round64_down [where k = 39] round_half_even_def)

lemma deposit_value_1:
  "spec_currentValue (Fin 11250) (Fin (4447304632028365 / 281474976710656)) (Fin 0) (Suc 0) = Fin (7161943865425919 / 549755813888)"
  by (simp only: spec_currentValue.simps deposit_yc deposit_growth deposit_value_sum_1 deposit_value_product_1)

lemma deposit_return_1:
  "sub64 (Fin (7161943865425919 / 549755813888)) (Fin 11250) = Fin (977190959185919 / 549755813888)"
  by (simp add: sub64_def round64_down [where k = 42] round_half_even_def)

lemma deposit_projection:
  "calculateProjection (Fin 11250) (round64 (Fin 15.8)) 1 (Fin 0) =
     \<lparr>futureValue = Fin 13027, totalInvestment = Fin 11250, totalReturn = Fin 1777,
      yearlyBreakdown =
        [\<lparr>entry_year = 1, entry_investment = Fin 11250, entry_value = Fin 13027,
           entry_return = Fin 1777\<rparr>]\<rparr>"
  unfolding catalogue_rate
  by (simp add: calculateProjection_spec spec_breakdown_def spec_entry_def
        eval_nat_numeral deposit_invested_1 deposit_value_1 deposit_return_1
        del: spec_totalInvestment.simps spec_currentValue.simps)







section \<open>Risk score\<close>

lemma riskQuestions_options:
  "list_all (\<lambda>q. list_all (\<lambda>opt. integer_between 1 4 (option_score opt) \<and> option_value opt \<noteq> [])
      (options q)) riskQuestions"
  by (simp add: riskQuestions_def)

lemma length_riskQuestions: "length riskQuestions = 8"
  by (simp add: riskQuestions_def)

lemma scoreQuestion_answered:
  assumes wf: "\<forall>opt \<in> set (options q). integer_between 1 4 (option_score opt) \<and> option_value opt \<noteq> []"
    and ans: "\<exists>opt \<in> set (options q). selected (question_id q) = Some (option_value opt)"
    and t: "integer_between lo hi t"
  shows "integer_between (lo + 1) (hi + 4) (fst (scoreQuestion selected (t, as) q))"
proof -
  from ans obtain opt where opt: "opt \<in> set (options q)"
    "selected (question_id q) = Some (option_value opt)" by blast
  from opt(1) wf have ne: "option_value opt \<noteq> []" by blast
  from opt(1) have "find (\<lambda>x. option_value x = option_value opt) (options q) \<noteq> None"
    by (auto simp: find_None_iff)
  then obtain found where
    f: "find (\<lambda>x. option_value x = option_value opt) (options q) = Some found"
    by blast
  then have "found \<in> set (options q)" by (auto simp: find_Some_iff in_set_conv_nth)
  with wf have "integer_between 1 4 (option_score found)" by blast
  from integer_between_add [OF t this]
  show ?thesis by (simp add: scoreQuestion_def opt(2) ne f)
qed

lemma foldl_scoreQuestion_range:
  assumes "\<forall>q \<in> set qs. \<forall>opt \<in> set (options q).
             integer_between 1 4 (option_score opt) \<and> option_value opt \<noteq> []"
    and "\<forall>q \<in> set qs. \<exists>opt \<in> set (options q). selected (question_id q) = Some (option_value opt)"
    and "integer_between lo hi t"
  shows "integer_between (lo + int (length qs)) (hi + 4 * int (length qs))
           (fst (foldl (scoreQuestion selected) (t, as) qs))"
  using assms
proof (induction qs arbitrary: lo hi t as)
  case Nil
  then show ?case by simp
next
  case (Cons q qs)
  obtain t' as' where st: "scoreQuestion selected (t, as) q = (t', as')"
    by (cases "scoreQuestion selected (t, as) q")
  have "integer_between (lo + 1) (hi + 4) (fst (scoreQuestion selected (t, as) q))"
    using Cons.prems by (intro scoreQuestion_answered) simp_all
  then have t': "integer_between (lo + 1) (hi + 4) t'" by (simp add: st)
  have "integer_between (lo + 1 + int (length qs)) (hi + 4 + 4 * int (length qs))
           (fst (foldl (scoreQuestion selected) (t', as') qs))"
    using Cons.prems(1,2) t' by (intro Cons.IH) simp_all
  then show ?case by (simp add: st algebra_simps)
qed

lemma totalScore_range:
  assumes "fullAnswerSet selected"
  shows "integer_between 8 32 (fst (foldl (scoreQuestion selected) (Fin 0, []) riskQuestions))"
proof -
  have wf: "\<forall>q \<in> set riskQuestions. \<forall>opt \<in> set (options q).
             integer_between 1 4 (option_score opt) \<and> option_value opt \<noteq> []"
    using riskQuestions_options by (simp add: list_all_iff)
  have full: "\<forall>q \<in> set riskQuestions. \<exists>opt \<in> set (options q).
      selected (question_id q) = Some (option_value opt)"
    using assms by (simp add: fullAnswerSet_def list_all_iff list_ex_iff)
  have "integer_between 0 0 (Fin 0)" by simp
  from foldl_scoreQuestion_range [OF wf full this, of "[]"]
  show ?thesis by (simp add: length_riskQuestions)
qed

lemma calculateRiskScore_of_total:
  assumes "fst (foldl (scoreQuestion selected) (Fin 0, []) riskQuestions) = Fin s"
  shows "score (fst (calculateRiskScore selected uid)) = Fin s"
    and "snd (calculateRiskScore selected uid) = Fin (s / 32 * 100)"
    and "tolerance (fst (calculateRiskScore selected uid)) =
           (if s / 32 * 100 \<le> 40 then CONSERVATIVE
            else if s / 32 * 100 \<le> 70 then MODERATE else AGGRESSIVE)"
proof -
  obtain t as where st: "foldl (scoreQuestion selected) (Fin 0, []) riskQuestions = (t, as)"
    by (cases "foldl (scoreQuestion selected) (Fin 0, []) riskQuestions")
  with assms have t: "t = Fin s" by simp
  show "score (fst (calculateRiskScore selected uid)) = Fin s"
    and "snd (calculateRiskScore selected uid) = Fin (s / 32 * 100)"
    and "tolerance (fst (calculateRiskScore selected uid)) =
           (if s / 32 * 100 \<le> 40 then CONSERVATIVE
            else if s / 32 * 100 \<le> 70 then MODERATE else AGGRESSIVE)"
    by (simp_all add: calculateRiskScore_def st t length_riskQuestions Let_def)
qed

text \<open>
  Claim C4: for every full answer set of the 8 questions the raw score is an integer
  between 8 and 32; the score percentage is the raw score / 32 * 100, and the tolerance is
  conservative exactly when the percentage is at most 40, moderate exactly when it is
  above 40 and at most 70, aggressive exactly when it is above 70; so of two full answer
  sets the one with the higher raw score never gets the lower tier.
\<close>

theorem risk_score_range_and_tiers:
  assumes "fullAnswerSet selected" and "fullAnswerSet selected'"
  shows "integer_between 8 32 (score (fst (calculateRiskScore selected uid)))
    \<and> snd (calculateRiskScore selected uid) =
        score (fst (calculateRiskScore selected uid)) / Fin 32 * Fin 100
    \<and> (tolerance (fst (calculateRiskScore selected uid)) = CONSERVATIVE
         \<longleftrightarrow> snd (calculateRiskScore selected uid) \<le> Fin 40)
    \<and> (tolerance (fst (calculateRiskScore selected uid)) = MODERATE
         \<longleftrightarrow> Fin 40 < snd (calculateRiskScore selected uid)
             \<and> snd (calculateRiskScore selected uid) \<le> Fin 70)
    \<and> (tolerance (fst (calculateRiskScore selected uid)) = AGGRESSIVE
         \<longleftrightarrow> Fin 70 < snd (calculateRiskScore selected uid))
    \<and> (score (fst (calculateRiskScore selected uid))
          \<le> score (fst (calculateRiskScore selected' uid'))
        \<longrightarrow> tier (tolerance (fst (calculateRiskScore selected uid)))
          \<le> tier (tolerance (fst (calculateRiskScore selected' uid'))))"
proof -
  obtain k where k: "fst (foldl (scoreQuestion selected) (Fin 0, []) riskQuestions) = Fin (of_int k)"
    "8 \<le> k" "k \<le> 32"
    using totalScore_range [OF assms(1)] by (rule integer_between_FinE)
  obtain k' where k': "fst (foldl (scoreQuestion selected') (Fin 0, []) riskQuestions) = Fin (of_int k')"
    "8 \<le> k'" "k' \<le> 32"
    using totalScore_range [OF assms(2)] by (rule integer_between_FinE)
  note r = calculateRiskScore_of_total [OF k(1), of uid]
  note r' = calculateRiskScore_of_total [OF k'(1), of uid']
  show ?thesis
    unfolding r r' using k(2,3) k'(2,3) by (auto simp: field_simps)
qed

lemma full_examples: "fullAnswerSet lowestAnswers" "fullAnswerSet highestAnswers"
  by (simp_all add: fullAnswerSet_def riskQuestions_def lowestAnswers_def highestAnswers_def)

lemma lowest_result:
  "score (fst (calculateRiskScore lowestAnswers [])) = Fin 8"
  "snd (calculateRiskScore lowestAnswers []) = Fin 25"
  "tolerance (fst (calculateRiskScore lowestAnswers [])) = CONSERVATIVE"
  by (simp_all add: calculateRiskScore_def scoreQuestion_def riskQuestions_def lowestAnswers_def Let_def)

lemma highest_result:
  "score (fst (calculateRiskScore highestAnswers [])) = Fin 32"
  "snd (calculateRiskScore highestAnswers []) = Fin 100"
  "tolerance (fst (calculateRiskScore highestAnswers [])) = AGGRESSIVE"
  by (simp_all add: calculateRiskScore_def scoreQuestion_def riskQuestions_def highestAnswers_def Let_def)

theorem risk_score_range_and_tiers_witness:
  "fullAnswerSet lowestAnswers \<and> fullAnswerSet highestAnswers
   \<and> integer_between 8 32 (score (fst (calculateRiskScore lowestAnswers [])))
   \<and> snd (calculateRiskScore lowestAnswers []) = Fin 8 / Fin 32 * Fin 100
   \<and> tolerance (fst (calculateRiskScore lowestAnswers [])) = CONSERVATIVE
   \<and> snd (calculateRiskScore lowestAnswers []) \<le> Fin 40
   \<and> score (fst (calculateRiskScore lowestAnswers []))
        \<le> score (fst (calculateRiskScore highestAnswers []))
   \<and> tier (tolerance (fst (calculateRiskScore lowestAnswers [])))
        \<le> tier (tolerance (fst (calculateRiskScore highestAnswers [])))"
  using risk_score_range_and_tiers [OF full_examples, of "[]" "[]"]
  by (simp add: full_examples lowest_result highest_result)

end
